theory Spec2Isabelle
  imports Main
begin

section \<open>JavaScript Number values\<close>

text \<open>
  The calculator of \<^verbatim>\<open>static/js/calculator.js\<close> computes with JavaScript Numbers, that is
  IEEE 754 binary64 values, and moves between Numbers and strings with \<^verbatim>\<open>parseFloat\<close>,
  \<^verbatim>\<open>String\<close>, \<^verbatim>\<open>toExponential\<close> and \<^verbatim>\<open>toLocaleString\<close>.  A finite Number is modelled
  by its sign and the two integers of its binary64 representation: \<open>Finite neg m e\<close> is
  \<open>(-1)\<^bsup>neg\<^esup> \<times> m \<times> 2\<^bsup>e\<^esup>\<close> with \<open>0 \<le> m < 2\<^bsup>53\<^esup>\<close>, \<open>-1074 \<le> e \<le> 971\<close>, and
  \<open>2\<^bsup>52\<^esup> \<le> m\<close> unless \<open>e = -1074\<close> (subnormals and the two zeros).  Every binary64 value has
  exactly one such representation, so \<open>=\<close> on \<open>number\<close> is identity of values
  (with \<open>+0\<close> and \<open>-0\<close> distinct, and one \<open>NaN\<close>).
\<close>

datatype number = NaN | Infinity bool | Finite bool int int

text \<open>
  Exact intermediate results are non-negative fractions \<open>(p, q)\<close> of integers, standing for
  \<open>p / q\<close> with \<open>0 < q\<close>.  They are never reduced: all that is done with them is to multiply,
  compare and round.
\<close>

type_synonym ratio = "int \<times> int"

definition pow_ratio :: "int \<Rightarrow> int \<Rightarrow> ratio" where
  "pow_ratio b k = (if 0 \<le> k then (b ^ nat k, 1) else (1, b ^ nat (- k)))"

fun ratio_mul :: "ratio \<Rightarrow> ratio \<Rightarrow> ratio" where
  "ratio_mul (a, b) (c, d) = (a * c, b * d)"

fun ratio_div :: "ratio \<Rightarrow> ratio \<Rightarrow> ratio" where
  "ratio_div (a, b) (c, d) = (a * d, b * c)"

fun ratio_le :: "ratio \<Rightarrow> ratio \<Rightarrow> bool" where
  "ratio_le (a, b) (c, d) = (a * d \<le> c * b)"

fun ratio_less :: "ratio \<Rightarrow> ratio \<Rightarrow> bool" where
  "ratio_less (a, b) (c, d) = (a * d < c * b)"

fun ratio_floor :: "ratio \<Rightarrow> int" where
  "ratio_floor (a, b) = a div b"

text \<open>Rounding a fraction to an integer: ties to even (IEEE 754), and ties upwards.\<close>

fun round_half_even :: "ratio \<Rightarrow> int" where
  "round_half_even (a, b) =
     (let k = a div b; r = a mod b
      in if 2 * r < b then k else if b < 2 * r then k + 1
         else if even k then k else k + 1)"

fun round_half_up :: "ratio \<Rightarrow> int" where
  "round_half_up (a, b) = (2 * a + b) div (2 * b)"

text \<open>The number of binary digits of a positive integer.\<close>

function bit_length :: "int \<Rightarrow> int" where
  "bit_length n = (if n \<le> 0 then 0 else 1 + bit_length (n div 2))"
  by pat_completeness auto
termination
  by (relation "measure nat") auto

declare bit_length.simps [simp del]

text \<open>
  \<open>ilog2 v\<close> is \<open>\<lfloor>log\<^sub>2 v\<rfloor>\<close> for a positive fraction: with \<open>d\<close> the difference of the bit
  lengths of numerator and denominator, \<open>2\<^bsup>d-1\<^esup> < v < 2\<^bsup>d+1\<^esup>\<close>.
\<close>

definition ilog2 :: "ratio \<Rightarrow> int" where
  "ilog2 v = (let d = bit_length (fst v) - bit_length (snd v)
              in if ratio_le (pow_ratio 2 d) v then d else d - 1)"

definition the_value :: "int \<Rightarrow> int \<Rightarrow> ratio" where
  "the_value m e = ratio_mul (m, 1) (pow_ratio 2 e)"

definition signed_zero :: "bool \<Rightarrow> number" where
  "signed_zero neg = Finite neg 0 (- 1074)"

definition with_sign :: "bool \<Rightarrow> int \<Rightarrow> int" where
  "with_sign neg m = (if neg then - m else m)"

text \<open>
  \<open>fl neg v\<close> is the binary64 value nearest to the exact magnitude \<open>v\<close>, ties to even, with
  sign \<open>neg\<close>: the unit in the last place is \<open>2\<^bsup>e\<^esup>\<close> with \<open>e = max (\<lfloor>log\<^sub>2 v\<rfloor> - 52) (-1074)\<close>,
  the significand is \<open>v / 2\<^bsup>e\<^esup>\<close> rounded, a significand rounded up to \<open>2\<^bsup>53\<^esup>\<close> moves to the
  next binade, and a result of \<open>2\<^bsup>1024\<^esup>\<close> or more is an infinity.
\<close>

definition fl :: "bool \<Rightarrow> ratio \<Rightarrow> number" where
  "fl neg v =
     (if fst v = 0 then signed_zero neg
      else let e = max (ilog2 v - 52) (- 1074);
               m = round_half_even (ratio_div v (pow_ratio 2 e));
               e' = (if m = 2 ^ 53 then e + 1 else e);
               m' = (if m = 2 ^ 53 then 2 ^ 52 else m)
           in if 971 < e' then Infinity neg else Finite neg m' e')"

subsection \<open>Arithmetic\<close>

text \<open>The operators \<^verbatim>\<open>+\<close>, \<^verbatim>\<open>-\<close>, \<^verbatim>\<open>*\<close> and \<^verbatim>\<open>/\<close> on Numbers (ECMAScript, Number::add and so on).\<close>

fun js_add :: "number \<Rightarrow> number \<Rightarrow> number" where
  "js_add NaN _ = NaN"
| "js_add _ NaN = NaN"
| "js_add (Infinity a) (Infinity b) = (if a = b then Infinity a else NaN)"
| "js_add (Infinity a) (Finite _ _ _) = Infinity a"
| "js_add (Finite _ _ _) (Infinity b) = Infinity b"
| "js_add (Finite a m e) (Finite b n f) =
     (let g = min e f;
          v = with_sign a m * 2 ^ nat (e - g) + with_sign b n * 2 ^ nat (f - g)
      in if v = 0 then signed_zero (a \<and> b) else fl (v < 0) (the_value \<bar>v\<bar> g))"

fun js_neg :: "number \<Rightarrow> number" where
  "js_neg NaN = NaN"
| "js_neg (Infinity a) = Infinity (\<not> a)"
| "js_neg (Finite a m e) = Finite (\<not> a) m e"

definition js_sub :: "number \<Rightarrow> number \<Rightarrow> number" where
  "js_sub x y = js_add x (js_neg y)"

fun js_mul :: "number \<Rightarrow> number \<Rightarrow> number" where
  "js_mul NaN _ = NaN"
| "js_mul _ NaN = NaN"
| "js_mul (Infinity a) (Infinity b) = Infinity (a \<noteq> b)"
| "js_mul (Infinity a) (Finite b n f) = (if n = 0 then NaN else Infinity (a \<noteq> b))"
| "js_mul (Finite a m e) (Infinity b) = (if m = 0 then NaN else Infinity (a \<noteq> b))"
| "js_mul (Finite a m e) (Finite b n f) = fl (a \<noteq> b) (the_value (m * n) (e + f))"

fun js_div :: "number \<Rightarrow> number \<Rightarrow> number" where
  "js_div NaN _ = NaN"
| "js_div _ NaN = NaN"
| "js_div (Infinity a) (Infinity b) = NaN"
| "js_div (Infinity a) (Finite b n f) = Infinity (a \<noteq> b)"
| "js_div (Finite a m e) (Infinity b) = signed_zero (a \<noteq> b)"
| "js_div (Finite a m e) (Finite b n f) =
     (if n = 0 then (if m = 0 then NaN else Infinity (a \<noteq> b))
      else fl (a \<noteq> b) (ratio_div (the_value m e) (the_value n f)))"

text \<open>
  \<^verbatim>\<open>Math.round(x)\<close> is \<open>\<lfloor>x + 1/2\<rfloor>\<close>, computed exactly; a result of zero keeps the sign of
  \<open>x\<close> (\<^verbatim>\<open>Math.round(-0.2)\<close> is \<open>-0\<close>).
\<close>

fun Math_round :: "number \<Rightarrow> number" where
  "Math_round NaN = NaN"
| "Math_round (Infinity a) = Infinity a"
| "Math_round (Finite a m e) =
     (let (p, q) = the_value m e; r = (2 * with_sign a p + q) div (2 * q)
      in if r = 0 then signed_zero a else fl (r < 0) (\<bar>r\<bar>, 1))"

fun Math_abs :: "number \<Rightarrow> number" where
  "Math_abs NaN = NaN"
| "Math_abs (Infinity _) = Infinity False"
| "Math_abs (Finite _ m e) = Finite False m e"

fun isNaN :: "number \<Rightarrow> bool" where
  "isNaN NaN = True"
| "isNaN _ = False"

text \<open>\<^verbatim>\<open>x < y\<close>, \<^verbatim>\<open>x >= y\<close> and \<^verbatim>\<open>x === y\<close> on Numbers; every comparison with \<open>NaN\<close> is false.\<close>

fun js_lt :: "number \<Rightarrow> number \<Rightarrow> bool" where
  "js_lt NaN _ = False"
| "js_lt _ NaN = False"
| "js_lt (Infinity a) (Infinity b) = (a \<and> \<not> b)"
| "js_lt (Infinity a) (Finite _ _ _) = a"
| "js_lt (Finite _ _ _) (Infinity b) = (\<not> b)"
| "js_lt (Finite a m e) (Finite b n f) =
     (let (p, q) = the_value m e; (r, s) = the_value n f
      in with_sign a p * s < with_sign b r * q)"

fun js_ge :: "number \<Rightarrow> number \<Rightarrow> bool" where
  "js_ge NaN _ = False"
| "js_ge _ NaN = False"
| "js_ge x y = (\<not> js_lt x y)"

fun strict_equal :: "number \<Rightarrow> number \<Rightarrow> bool" where
  "strict_equal NaN _ = False"
| "strict_equal _ NaN = False"
| "strict_equal (Finite a m e) (Finite b n f) = (m = n \<and> e = f \<and> (a = b \<or> m = 0))"
| "strict_equal x y = (x = y)"

text \<open>
  Numeric literals of the source: \<open>literal p q\<close> is the Number for the decimal literal of
  value \<open>p / q\<close>.  \<^verbatim>\<open>Number.EPSILON\<close> is \<open>2\<^bsup>-52\<^esup>\<close>, the gap between 1 and the next Number.
\<close>

definition literal :: "int \<Rightarrow> int \<Rightarrow> number" where
  "literal p q = fl False (p, q)"

definition Number_EPSILON :: number where
  "Number_EPSILON = Finite False (2 ^ 52) (- 104)"

subsection \<open>Decimal digits\<close>

definition digit_char :: "int \<Rightarrow> char" where
  "digit_char d = ''0123456789'' ! nat d"

definition is_digit :: "char \<Rightarrow> bool" where
  "is_digit c = (c \<in> set ''0123456789'')"

definition digit_value :: "char \<Rightarrow> int" where
  "digit_value c = of_char c - 48"

function decimal :: "int \<Rightarrow> string" where
  "decimal n = (if n < 10 then [digit_char n] else decimal (n div 10) @ [digit_char (n mod 10)])"
  by pat_completeness auto
termination
  by (relation "measure nat") auto

declare decimal.simps [simp del]

definition parse_digits :: "string \<Rightarrow> int" where
  "parse_digits ds = foldl (\<lambda>a c. 10 * a + digit_value c) 0 ds"

subsection \<open>\<^verbatim>\<open>parseFloat\<close>\<close>

text \<open>
  \<^verbatim>\<open>parseFloat(string)\<close> skips leading white space and reads the longest prefix that is a
  \<^verbatim>\<open>StrDecimalLiteral\<close>: an optional sign, then \<^verbatim>\<open>Infinity\<close> or decimal digits with an optional
  fraction and an optional exponent; at least one digit must come before the exponent.
  With no such prefix the result is \<open>NaN\<close>.  What follows the prefix is ignored, and an
  \<^verbatim>\<open>e\<close> with no digits after it is not part of the prefix.  (The strings of this program
  are ASCII; the white space characters beyond ASCII are left out.)
\<close>

definition StrWhiteSpaceChar :: "char \<Rightarrow> bool" where
  "StrWhiteSpaceChar c = (c \<in> set [CHR 0x09, CHR 0x0A, CHR 0x0B, CHR 0x0C, CHR 0x0D, CHR 0x20])"

fun split_sign :: "string \<Rightarrow> bool \<times> string" where
  "split_sign (c # cs) =
     (if c = CHR ''-'' then (True, cs) else if c = CHR ''+'' then (False, cs) else (False, c # cs))"
| "split_sign [] = (False, [])"

fun ExponentPart :: "string \<Rightarrow> int" where
  "ExponentPart (c # cs) =
     (if c = CHR ''e'' \<or> c = CHR ''E''
      then let (neg, r) = split_sign cs; ds = takeWhile is_digit r
           in if ds = [] then 0 else with_sign neg (parse_digits ds)
      else 0)"
| "ExponentPart [] = 0"

fun fraction_digits :: "string \<Rightarrow> string \<times> string" where
  "fraction_digits (c # cs) =
     (if c = CHR ''.'' then (takeWhile is_digit cs, dropWhile is_digit cs) else ([], c # cs))"
| "fraction_digits [] = ([], [])"

definition parseFloat_string :: "string \<Rightarrow> number" where
  "parseFloat_string str =
     (let (neg, s) = split_sign (dropWhile StrWhiteSpaceChar str)
      in if take 8 s = ''Infinity'' then Infinity neg
         else let ip = takeWhile is_digit s;
                  (fp, r) = fraction_digits (dropWhile is_digit s)
              in if ip = [] \<and> fp = [] then NaN
                 else fl neg (ratio_mul (parse_digits (ip @ fp), 10 ^ length fp)
                                (pow_ratio 10 (ExponentPart r))))"

subsection \<open>\<^verbatim>\<open>String(number)\<close>\<close>

text \<open>
  Number::toString: for a positive finite \<open>x\<close>, let \<open>n\<close>, \<open>k\<close> and \<open>s\<close> be integers with
  \<open>k \<ge> 1\<close>, \<open>10\<^bsup>k-1\<^esup> \<le> s < 10\<^bsup>k\<^esup>\<close>, the Number for \<open>s \<times> 10\<^bsup>n-k\<^esup>\<close> being \<open>x\<close>, and \<open>k\<close> as
  small as possible (and \<open>s \<times> 10\<^bsup>n-k\<^esup>\<close> as close to \<open>x\<close> as possible).  The digits of \<open>s\<close> are
  then laid out by \<open>render\<close>, in positional notation for \<open>-6 < n \<le> 21\<close> and in exponent
  notation otherwise.

  \<open>decimal_exponent v\<close> is the \<open>n\<close> with \<open>10\<^bsup>n-1\<^esup> \<le> v < 10\<^bsup>n\<^esup>\<close>, looked for next to the
  estimate \<open>\<lfloor>0.30103 \<times> \<lfloor>log\<^sub>2 v\<rfloor>\<rfloor>\<close>.  For \<open>k\<close> digits the only candidates for \<open>s\<close> are the two
  integers around \<open>v / 10\<^bsup>n-k\<^esup>\<close>; the upper one may be \<open>10\<^bsup>k\<^esup>\<close>, which is the single digit 1
  with \<open>n + 1\<close>.  Seventeen digits always identify a binary64 value; the search gives
  \<open>None\<close> only on a \<open>Finite\<close> that is not the representation of one.
\<close>

definition decimal_exponent :: "ratio \<Rightarrow> int option" where
  "decimal_exponent v =
     (let g = ilog2 v * 30103 div 100000
      in find (\<lambda>n. ratio_le (pow_ratio 10 (n - 1)) v \<and> ratio_less v (pow_ratio 10 n))
           [g, g + 1, g + 2])"

definition digits_at :: "number \<Rightarrow> ratio \<Rightarrow> int \<Rightarrow> int \<Rightarrow> int option" where
  "digits_at x v n k =
     (let sc = ratio_div v (pow_ratio 10 (n - k));
          lo = ratio_floor sc;
          hi = lo + 1;
          ok = (\<lambda>s. 10 ^ nat (k - 1) \<le> s \<and>
                     fl False (ratio_mul (s, 1) (pow_ratio 10 (n - k))) = x)
      in if ok lo then (if ok hi then Some (round_half_even sc) else Some lo)
         else if ok hi then Some hi else None)"

fun shortest :: "number \<Rightarrow> ratio \<Rightarrow> int \<Rightarrow> int list \<Rightarrow> (int \<times> int) option" where
  "shortest x v n [] = None"
| "shortest x v n (k # ks) =
     (case digits_at x v n k of Some s \<Rightarrow> Some (s, k) | None \<Rightarrow> shortest x v n ks)"

definition render :: "string \<Rightarrow> int \<Rightarrow> string" where
  "render ds n =
     (let k = int (length ds)
      in if k \<le> n \<and> n \<le> 21 then ds @ replicate (nat (n - k)) CHR ''0''
         else if 0 < n \<and> n \<le> 21 then take (nat n) ds @ ''.'' @ drop (nat n) ds
         else if - 6 < n \<and> n \<le> 0 then ''0.'' @ replicate (nat (- n)) CHR ''0'' @ ds
         else let ex = (if 0 < n - 1 then ''+'' else ''-'') @ decimal \<bar>n - 1\<bar>
              in if k = 1 then ds @ ''e'' @ ex else hd ds # ''.'' @ tl ds @ ''e'' @ ex)"

text \<open>
  \<open>shortest_digits m e\<close> gives the \<open>s\<close> and the \<open>n\<close> of Number::toString for the positive
  Number \<open>m \<times> 2\<^bsup>e\<^esup>\<close>; the digits of \<open>s\<close> are \<open>k\<close> in number, and \<open>s \<times> 10\<^bsup>n-k\<^esup>\<close> is the
  shortest decimal that reads back as the Number.
\<close>

definition shortest_digits :: "int \<Rightarrow> int \<Rightarrow> (int \<times> int) option" where
  "shortest_digits m e =
     (let v = the_value m e
      in case decimal_exponent v of
           None \<Rightarrow> None
         | Some n \<Rightarrow>
             (case shortest (Finite False m e) v n
                     [1, 2, 3, 4, 5, 6, 7, 8, 9, 10, 11, 12, 13, 14, 15, 16, 17] of
                None \<Rightarrow> None
              | Some (s, k) \<Rightarrow> Some (if s = 10 ^ nat k then (1, n + 1) else (s, n))))"

definition to_decimal :: "int \<Rightarrow> int \<Rightarrow> string" where
  "to_decimal m e =
     (case shortest_digits m e of
        None \<Rightarrow> ''NaN''
      | Some (s, n) \<Rightarrow> render (decimal s) n)"

fun ToString :: "number \<Rightarrow> string" where
  "ToString NaN = ''NaN''"
| "ToString (Infinity neg) = (if neg then ''-Infinity'' else ''Infinity'')"
| "ToString (Finite neg m e) =
     (if m = 0 then ''0'' else (if neg then ''-'' else '''') @ to_decimal m e)"

subsection \<open>\<^verbatim>\<open>toExponential(6)\<close> and \<^verbatim>\<open>toLocaleString\<close>\<close>

text \<open>
  \<^verbatim>\<open>x.toExponential(6)\<close>: one digit, a point, six digits, \<^verbatim>\<open>e\<close>, the sign of the exponent and
  the exponent; the seven digits are those of the integer \<open>r\<close> with \<open>r \<times> 10\<^bsup>e-6\<^esup>\<close> nearest to
  the exact value of \<open>x\<close>, the larger one at a tie.
\<close>

fun toExponential6 :: "number \<Rightarrow> string" where
  "toExponential6 NaN = ''NaN''"
| "toExponential6 (Infinity neg) = (if neg then ''-Infinity'' else ''Infinity'')"
| "toExponential6 (Finite neg m e) =
     (if m = 0 then ''0.000000e+0''
      else (if neg then ''-'' else '''') @
        (let v = the_value m e
         in case decimal_exponent v of
              None \<Rightarrow> ''NaN''
            | Some n \<Rightarrow>
                let r = round_half_up (ratio_div v (pow_ratio 10 (n - 7)));
                    x = (if r = 10 ^ 7 then n else n - 1);
                    ds = decimal (if r = 10 ^ 7 then 10 ^ 6 else r)
                in hd ds # ''.'' @ tl ds @ ''e'' @ (if 0 \<le> x then ''+'' else ''-'') @
                   decimal \<bar>x\<bar>))"

text \<open>
  \<^verbatim>\<open>x.toLocaleString('en-US', {maximumFractionDigits: 8, useGrouping: false})\<close>.  The
  formatter starts from the shortest decimal that reads back as \<open>x\<close>, the digits that
  \<^verbatim>\<open>String(x)\<close> prints, and rounds this decimal to eight fraction digits, ties away from zero
  (\<^verbatim>\<open>1.000000005\<close> becomes \<^verbatim>\<open>1.00000001\<close>, though the binary value is below the tie).  It
  prints the integer digits without grouping and the fraction digits without trailing zeros,
  with no point when none is left.  Display strings are kept as UTF-8 bytes: the infinity
  sign is three of them.
\<close>

definition fixed8 :: "int \<Rightarrow> string" where
  "fixed8 r =
     (let fd = decimal (r mod 10 ^ 8);
          fs = rev (dropWhile (\<lambda>c. c = CHR ''0'')
                      (rev (replicate (8 - length fd) CHR ''0'' @ fd)))
      in decimal (r div 10 ^ 8) @ (if fs = [] then [] else ''.'' @ fs))"

fun toLocaleString :: "number \<Rightarrow> string" where
  "toLocaleString NaN = ''NaN''"
| "toLocaleString (Infinity neg) = (if neg then ''-'' else '''') @ [CHR 0xE2, CHR 0x88, CHR 0x9E]"
| "toLocaleString (Finite neg m e) =
     (if neg then ''-'' else '''') @
     (if m = 0 then ''0''
      else case shortest_digits m e of
             None \<Rightarrow> ''NaN''
           | Some (s, n) \<Rightarrow>
               fixed8 (round_half_up
                         (ratio_mul (s, 1) (pow_ratio 10 (n - int (length (decimal s)) + 8)))))"

section \<open>The calculator\<close>

text \<open>
  The fields of \<^verbatim>\<open>class Calculator\<close>.  \<^verbatim>\<open>previousInput\<close> holds the empty string or a Number,
  \<^verbatim>\<open>operator\<close> holds \<^verbatim>\<open>null\<close> or one of four action names.  Of the two display elements the
  state keeps what the class writes: the text of each, and whether the primary one carries the
  class \<^verbatim>\<open>display-error\<close>.  \<open>pendingResets\<close> counts the timeouts that \<^verbatim>\<open>showError\<close> has set
  and that have not fired yet.
\<close>

datatype jsvalue = Str string | Num number

datatype operator = Add | Subtract | Multiply | Divide

record calculator =
  currentInput :: string
  previousInput :: jsvalue
  operator :: "operator option"
  waitingForOperand :: bool
  justCalculated :: bool
  displayPrimary :: string
  displayError :: bool
  displaySecondary :: string
  pendingResets :: nat

text \<open>\<^verbatim>\<open>parseFloat\<close> converts its argument to a string first.\<close>

fun parseFloat :: "jsvalue \<Rightarrow> number" where
  "parseFloat (Str s) = parseFloat_string s"
| "parseFloat (Num x) = parseFloat_string (ToString x)"

subsection \<open>Display\<close>

text \<open>
  \<^verbatim>\<open>formatNumber(num)\<close>, lines 362-377:
  \<^verbatim>\<open>if (isNaN(number)) return '0';\<close>
  \<^verbatim>\<open>if (Math.abs(number) >= 1e10 || (Math.abs(number) < 1e-6 && number !== 0))\<close>
  \<^verbatim>\<open>    return number.toExponential(6);\<close>
  \<^verbatim>\<open>return number.toLocaleString('en-US', {maximumFractionDigits: 8, useGrouping: false});\<close>
\<close>

definition formatNumber :: "jsvalue \<Rightarrow> string" where
  "formatNumber num =
     (let number = parseFloat num
      in if isNaN number then ''0''
         else if js_ge (Math_abs number) (literal (10 ^ 10) 1) \<or>
                 (js_lt (Math_abs number) (literal 1 (10 ^ 6)) \<and>
                  \<not> strict_equal number (literal 0 1))
              then toExponential6 number
              else toLocaleString number)"

definition updateDisplay :: "calculator \<Rightarrow> calculator" where
  "updateDisplay c =
     c\<lparr>displayPrimary := formatNumber (Str (currentInput c)), displayError := False\<rparr>"

text \<open>
  The symbols of \<^verbatim>\<open>getOperatorSymbol\<close> are \<^verbatim>\<open>+\<close>, the minus sign U+2212, the multiplication
  sign U+00D7 and the division sign U+00F7, here in UTF-8.
\<close>

fun getOperatorSymbol :: "operator \<Rightarrow> string" where
  "getOperatorSymbol Add = ''+''"
| "getOperatorSymbol Subtract = [CHR 0xE2, CHR 0x88, CHR 0x92]"
| "getOperatorSymbol Multiply = [CHR 0xC3, CHR 0x97]"
| "getOperatorSymbol Divide = [CHR 0xC3, CHR 0xB7]"

definition updateSecondaryDisplay :: "bool \<Rightarrow> calculator \<Rightarrow> calculator" where
  "updateSecondaryDisplay showResult c =
     (case operator c of
        None \<Rightarrow> c
      | Some op \<Rightarrow>
          if previousInput c = Str '''' then c
          else if showResult
          then c\<lparr>displaySecondary :=
                   formatNumber (previousInput c) @ '' '' @ getOperatorSymbol op @ '' '' @
                   formatNumber (Str (currentInput c)) @ '' =''\<rparr>
          else c\<lparr>displaySecondary :=
                   formatNumber (previousInput c) @ '' '' @ getOperatorSymbol op\<rparr>)"

definition clearSecondaryDisplay :: "calculator \<Rightarrow> calculator" where
  "clearSecondaryDisplay c = c\<lparr>displaySecondary := ''''\<rparr>"

text \<open>
  \<^verbatim>\<open>showError(message)\<close>, lines 383-392, writes both displays and sets a timeout of two
  seconds that will call \<^verbatim>\<open>clearAll\<close>.
\<close>

definition showError :: "string \<Rightarrow> calculator \<Rightarrow> calculator" where
  "showError message c =
     c\<lparr>displayPrimary := ''Error'', displayError := True, displaySecondary := message,
       pendingResets := Suc (pendingResets c)\<rparr>"

subsection \<open>Digits and the decimal point\<close>

text \<open>\<^verbatim>\<open>inputNumber(digit)\<close>, lines 159-172, and \<^verbatim>\<open>inputDecimal()\<close>, lines 177-190.\<close>

definition inputNumber :: "string \<Rightarrow> calculator \<Rightarrow> calculator" where
  "inputNumber digit c =
     updateDisplay
       (if waitingForOperand c
        then c\<lparr>currentInput := digit, waitingForOperand := False\<rparr>
        else if justCalculated c
        then clearSecondaryDisplay (c\<lparr>currentInput := digit, justCalculated := False\<rparr>)
        else c\<lparr>currentInput := (if currentInput c = ''0'' then digit
                                 else currentInput c @ digit)\<rparr>)"

definition inputDecimal :: "calculator \<Rightarrow> calculator" where
  "inputDecimal c =
     updateDisplay
       (if waitingForOperand c
        then c\<lparr>currentInput := ''0.'', waitingForOperand := False\<rparr>
        else if justCalculated c
        then clearSecondaryDisplay (c\<lparr>currentInput := ''0.'', justCalculated := False\<rparr>)
        else if CHR ''.'' \<notin> set (currentInput c)
        then c\<lparr>currentInput := currentInput c @ ''.''\<rparr>
        else c)"

subsection \<open>Evaluation\<close>

text \<open>
  \<^verbatim>\<open>performCalculation()\<close>, lines 222-253, returns a Number, or \<^verbatim>\<open>null\<close> at three places:
  when an operand is not a number, after \<^verbatim>\<open>showError\<close> on a division by zero, and in the
  \<^verbatim>\<open>default\<close> branch of the \<^verbatim>\<open>switch\<close>.  The three are told apart here; the callers treat
  them alike.  The last line of the function is
  \<^verbatim>\<open>return Math.round((result + Number.EPSILON) * 100000000) / 100000000;\<close>
\<close>

datatype error = NotANumber | DivisionByZero | UnknownOperator

definition round_result :: "number \<Rightarrow> number" where
  "round_result result =
     js_div (Math_round (js_mul (js_add result Number_EPSILON) (literal 100000000 1)))
       (literal 100000000 1)"

definition performCalculation :: "calculator \<Rightarrow> (error + number) \<times> calculator" where
  "performCalculation c =
     (let prev = parseFloat (previousInput c);
          current = parseFloat (Str (currentInput c))
      in if isNaN prev \<or> isNaN current then (Inl NotANumber, c)
         else case operator c of
                Some Add \<Rightarrow> (Inr (round_result (js_add prev current)), c)
              | Some Subtract \<Rightarrow> (Inr (round_result (js_sub prev current)), c)
              | Some Multiply \<Rightarrow> (Inr (round_result (js_mul prev current)), c)
              | Some Divide \<Rightarrow>
                  if strict_equal current (literal 0 1)
                  then (Inl DivisionByZero, showError ''Cannot divide by zero'' c)
                  else (Inr (round_result (js_div prev current)), c)
              | None \<Rightarrow> (Inl UnknownOperator, c))"

text \<open>
  \<^verbatim>\<open>handleOperator(nextOperator)\<close>, lines 196-216.  \<open>set_operator\<close> is what its lines 210-215
  do, on every path that does not return at \<^verbatim>\<open>if (result === null) return;\<close>.
\<close>

definition set_operator :: "operator \<Rightarrow> calculator \<Rightarrow> calculator" where
  "set_operator nextOperator c =
     updateDisplay (updateSecondaryDisplay False
       (c\<lparr>waitingForOperand := True, operator := Some nextOperator, justCalculated := False\<rparr>))"

definition handleOperator :: "operator \<Rightarrow> calculator \<Rightarrow> calculator" where
  "handleOperator nextOperator c =
     (let inputValue = parseFloat (Str (currentInput c))
      in if previousInput c = Str ''''
         then set_operator nextOperator (c\<lparr>previousInput := Num inputValue\<rparr>)
         else if operator c \<noteq> None \<and> \<not> waitingForOperand c
         then (case performCalculation c of
                 (Inl _, c') \<Rightarrow> c'
               | (Inr result, c') \<Rightarrow>
                   set_operator nextOperator
                     (c'\<lparr>currentInput := ToString result, previousInput := Num result\<rparr>))
         else set_operator nextOperator c)"

text \<open>\<^verbatim>\<open>calculate()\<close>, lines 258-273.\<close>

definition calculate :: "calculator \<Rightarrow> calculator" where
  "calculate c =
     (if operator c \<noteq> None \<and> previousInput c \<noteq> Str '''' \<and> \<not> waitingForOperand c
      then (case performCalculation c of
              (Inl _, c') \<Rightarrow> c'
            | (Inr result, c') \<Rightarrow>
                updateDisplay
                  ((updateSecondaryDisplay True c')
                     \<lparr>currentInput := ToString result, previousInput := Str '''',
                      operator := None, waitingForOperand := False, justCalculated := True\<rparr>))
      else c)"

subsection \<open>Clearing and backspace\<close>

text \<open>\<^verbatim>\<open>clear()\<close>, lines 278-281, \<^verbatim>\<open>clearAll()\<close>, lines 286-294, \<^verbatim>\<open>backspace()\<close>, lines 299-309.\<close>

definition clear :: "calculator \<Rightarrow> calculator" where
  "clear c = updateDisplay (c\<lparr>currentInput := ''0''\<rparr>)"

definition clearAll :: "calculator \<Rightarrow> calculator" where
  "clearAll c =
     updateDisplay (clearSecondaryDisplay
       (c\<lparr>currentInput := ''0'', previousInput := Str '''', operator := None,
          waitingForOperand := False, justCalculated := False\<rparr>))"

definition backspace :: "calculator \<Rightarrow> calculator" where
  "backspace c =
     (if justCalculated c then c
      else updateDisplay
             (if 1 < length (currentInput c)
              then c\<lparr>currentInput := butlast (currentInput c)\<rparr>
              else c\<lparr>currentInput := ''0''\<rparr>))"

subsection \<open>Events\<close>

text \<open>
  \<^verbatim>\<open>handleAction(action)\<close>, lines 129-153, sends the four operator names to
  \<^verbatim>\<open>handleOperator\<close> and the other five actions to their methods.  A button carries a digit
  in \<^verbatim>\<open>data-number\<close> or an action in \<^verbatim>\<open>data-action\<close> (\<^verbatim>\<open>handleButtonClick\<close>, lines 53-62).
\<close>

datatype digit = D0 | D1 | D2 | D3 | D4 | D5 | D6 | D7 | D8 | D9

fun digit_string :: "digit \<Rightarrow> string" where
  "digit_string D0 = ''0''"
| "digit_string D1 = ''1''"
| "digit_string D2 = ''2''"
| "digit_string D3 = ''3''"
| "digit_string D4 = ''4''"
| "digit_string D5 = ''5''"
| "digit_string D6 = ''6''"
| "digit_string D7 = ''7''"
| "digit_string D8 = ''8''"
| "digit_string D9 = ''9''"

datatype action = Operator operator | Equals | Decimal | Clear | Clear_all | Backspace

fun handleAction :: "action \<Rightarrow> calculator \<Rightarrow> calculator" where
  "handleAction (Operator op) c = handleOperator op c"
| "handleAction Equals c = calculate c"
| "handleAction Decimal c = inputDecimal c"
| "handleAction Clear c = clear c"
| "handleAction Clear_all c = clearAll c"
| "handleAction Backspace c = backspace c"

text \<open>
  \<^verbatim>\<open>handleKeyPress(event)\<close>, lines 68-123, with \<^verbatim>\<open>key\<close> the value of \<^verbatim>\<open>event.key\<close>.  The test
  \<^verbatim>\<open>/[0-9]/.test(key)\<close> of line 77 is not anchored: it holds of every key whose name has a
  digit in it, of \<^verbatim>\<open>F1\<close> as of \<^verbatim>\<open>1\<close>, and \<^verbatim>\<open>inputNumber\<close> gets the whole name.  The \<^verbatim>\<open>switch\<close>
  after it compares the whole key.  (\<^verbatim>\<open>preventDefault\<close> and \<^verbatim>\<open>highlightButton\<close> do not touch the
  state.)
\<close>

definition handleKeyPress :: "string \<Rightarrow> calculator \<Rightarrow> calculator" where
  "handleKeyPress key c =
     (let c' = (if list_ex is_digit key then inputNumber key c else c)
      in if key = ''+'' then handleAction (Operator Add) c'
         else if key = ''-'' then handleAction (Operator Subtract) c'
         else if key = ''*'' then handleAction (Operator Multiply) c'
         else if key = ''/'' then handleAction (Operator Divide) c'
         else if key = ''.'' then handleAction Decimal c'
         else if key = ''='' \<or> key = ''Enter'' then handleAction Equals c'
         else if key = ''Escape'' then handleAction Clear_all c'
         else if key = ''Backspace'' then handleAction Backspace c'
         else if key = ''c'' \<or> key = ''C'' then handleAction Clear c'
         else c')"

text \<open>
  The value of \<^verbatim>\<open>event.key\<close> is a key string, that is one character and the combining marks
  that may follow it, or the name of a key, which starts with a capital letter (\<^verbatim>\<open>Enter\<close>,
  \<^verbatim>\<open>Backspace\<close>, \<^verbatim>\<open>F1\<close>).  So no digit comes after a first character that is not a capital
  letter.
\<close>

definition key_value :: "string \<Rightarrow> bool" where
  "key_value key =
     (case key of
        [] \<Rightarrow> True
      | c # cs \<Rightarrow> c \<in> set ''ABCDEFGHIJKLMNOPQRSTUVWXYZ'' \<or> \<not> list_ex is_digit cs)"

text \<open>
  The events: a click on a digit button, a click on an action button, a key pressed, and a
  timeout of \<^verbatim>\<open>showError\<close> that fires.
\<close>

datatype event = Number digit | Action action | KeyDown string | Timeout

definition timeout :: "calculator \<Rightarrow> calculator" where
  "timeout c =
     (if pendingResets c = 0 then c
      else clearAll (c\<lparr>pendingResets := pendingResets c - 1\<rparr>))"

fun handle :: "event \<Rightarrow> calculator \<Rightarrow> calculator" where
  "handle (Number d) c = inputNumber (digit_string d) c"
| "handle (Action a) c = handleAction a c"
| "handle (KeyDown key) c = handleKeyPress key c"
| "handle Timeout c = timeout c"

fun possible :: "event \<Rightarrow> bool" where
  "possible (KeyDown key) = key_value key"
| "possible _ = True"

definition run :: "event list \<Rightarrow> calculator \<Rightarrow> calculator" where
  "run es c = foldl (\<lambda>c e. handle e c) c es"

text \<open>
  The constructor, lines 7-22, sets the five fields and calls \<^verbatim>\<open>updateDisplay\<close>.  It does
  not write the secondary display, whose first text is that of the page (a parameter here).
\<close>

definition Calculator :: "string \<Rightarrow> calculator" where
  "Calculator secondary =
     updateDisplay
       \<lparr>currentInput = ''0'', previousInput = Str '''', operator = None,
        waitingForOperand = False, justCalculated = False,
        displayPrimary = '''', displayError = False, displaySecondary = secondary,
        pendingResets = 0\<rparr>"

inductive reachable :: "calculator \<Rightarrow> bool" where
  start: "reachable (Calculator secondary)"
| step: "reachable c \<Longrightarrow> possible e \<Longrightarrow> reachable (handle e c)"

section \<open>Notions of the specification\<close>

text \<open>
  A (possibly partial) decimal numeral, as in the examples \<^verbatim>\<open>"0"\<close>, \<^verbatim>\<open>"12.5"\<close> and \<^verbatim>\<open>"0."\<close>
  of the specification: it starts with a digit, consists of digits and points, and has at
  most one point.
\<close>

definition decimal_numeral :: "string \<Rightarrow> bool" where
  "decimal_numeral s =
     (s \<noteq> [] \<and> is_digit (hd s) \<and> list_all (\<lambda>c. is_digit c \<or> c = CHR ''.'') s \<and>
      length (filter (\<lambda>c. c = CHR ''.'') s) \<le> 1)"

text \<open>A redundant leading zero: the character \<^verbatim>\<open>0\<close> first, and a digit right after it.\<close>

fun redundant_leading_zero :: "string \<Rightarrow> bool" where
  "redundant_leading_zero (c # d # _) = (c = CHR ''0'' \<and> is_digit d)"
| "redundant_leading_zero _ = False"

text \<open>
  Entry of digits and decimal points.  \<open>typed es\<close> is the left-to-right concatenation of
  what the events of \<open>es\<close> type.  The rule of the specification, in closed form: the zeros
  typed first are dropped (each one replaces the \<^verbatim>\<open>"0"\<close> on display by itself, and the first
  other digit replaces it for good), nothing left is \<^verbatim>\<open>"0"\<close>, a point that comes first
  keeps the \<^verbatim>\<open>"0"\<close> before it, and of all the points only the first is retained.
\<close>

fun is_entry :: "event \<Rightarrow> bool" where
  "is_entry (Number _) = True"
| "is_entry (Action Decimal) = True"
| "is_entry _ = False"

fun typed_by :: "event \<Rightarrow> string" where
  "typed_by (Number d) = digit_string d"
| "typed_by (Action Decimal) = ''.''"
| "typed_by _ = []"

definition typed :: "event list \<Rightarrow> string" where
  "typed es = concat (map typed_by es)"

fun first_point_only :: "string \<Rightarrow> string" where
  "first_point_only [] = []"
| "first_point_only (c # cs) =
     (if c = CHR ''.'' then c # filter (\<lambda>x. x \<noteq> CHR ''.'') cs else c # first_point_only cs)"

definition concatenation_rule :: "string \<Rightarrow> string" where
  "concatenation_rule cs =
     (let r = dropWhile (\<lambda>c. c = CHR ''0'') cs
      in if r = [] then ''0''
         else if hd r = CHR ''.'' then CHR ''0'' # first_point_only r
         else first_point_only r)"


definition tenth_plus_two_tenths :: "event list" where
  "tenth_plus_two_tenths =
     [Number D0, Action Decimal, Number D1, Action (Operator Add),
      Number D0, Action Decimal, Number D2]"

definition five_by_zero :: "event list" where
  "five_by_zero = [Number D5, Action (Operator Divide), Number D0]"

text \<open>\<^verbatim>\<open>3 - 8 +\<close> leaves the result \<^verbatim>\<open>"-5"\<close> in \<^verbatim>\<open>currentInput\<close>; then backspace.\<close>

definition backspace_on_result :: "event list" where
  "backspace_on_result =
     [Number D3, Action (Operator Subtract), Number D8, Action (Operator Add),
      Action Backspace]"

text \<open>
  \<open>2 \<times> 10\<^bsup>150\<^esup>\<close> times itself overflows in the rounding step of \<^verbatim>\<open>performCalculation\<close>, the
  infinity times zero is \<open>NaN\<close>, and the next operator stores it in \<^verbatim>\<open>previousInput\<close>:
  \<^verbatim>\<open>20...0 * 20...0 * 0 = + 1\<close>, with 150 zeros after each 2.
\<close>

definition big_operand :: "event list" where
  "big_operand = Number D2 # replicate 150 (Number D0)"

definition nan_operand :: "event list" where
  "nan_operand =
     big_operand @ [Action (Operator Multiply)] @ big_operand @
     [Action (Operator Multiply), Number D0, Action Equals, Action (Operator Add), Number D1]"

text \<open>
  The result of the pending operator before it is rounded: the \<^verbatim>\<open>result\<close> of the \<^verbatim>\<open>switch\<close> in
  \<^verbatim>\<open>performCalculation\<close>.
\<close>

fun raw_result :: "operator \<Rightarrow> number \<Rightarrow> number \<Rightarrow> number" where
  "raw_result Add prev current = js_add prev current"
| "raw_result Subtract prev current = js_sub prev current"
| "raw_result Multiply prev current = js_mul prev current"
| "raw_result Divide prev current = js_div prev current"

text \<open>
  An event that gives \<^verbatim>\<open>inputNumber\<close> a digit and nothing else: every click is one, and a key
  that passes the test \<^verbatim>\<open>/[0-9]/\<close> is one when it is a digit key, its value one character.
\<close>

fun digits_only :: "event \<Rightarrow> bool" where
  "digits_only (KeyDown key) = (if list_ex is_digit key then length key = 1 else True)"
| "digits_only _ = True"

text \<open>
  What holds of \<^verbatim>\<open>currentInput\<close> as long as the events are of this kind: it is not empty, and
  it is a decimal numeral unless it holds a computed result (one of the two flags is set
  then).
\<close>

definition entry_invariant :: "calculator \<Rightarrow> bool" where
  "entry_invariant c =
     (currentInput c \<noteq> [] \<and>
      (waitingForOperand c \<or> justCalculated c \<or> decimal_numeral (currentInput c)))"

section \<open>Fields after each method\<close>

lemma updateDisplay_fields [simp]:
  "currentInput (updateDisplay c) = currentInput c"
  "previousInput (updateDisplay c) = previousInput c"
  "operator (updateDisplay c) = operator c"
  "waitingForOperand (updateDisplay c) = waitingForOperand c"
  "justCalculated (updateDisplay c) = justCalculated c"
  "displaySecondary (updateDisplay c) = displaySecondary c"
  "pendingResets (updateDisplay c) = pendingResets c"
  "displayPrimary (updateDisplay c) = formatNumber (Str (currentInput c))"
  "displayError (updateDisplay c) = False"
  by (simp_all add: updateDisplay_def)

lemma updateSecondaryDisplay_fields [simp]:
  "currentInput (updateSecondaryDisplay b c) = currentInput c"
  "previousInput (updateSecondaryDisplay b c) = previousInput c"
  "operator (updateSecondaryDisplay b c) = operator c"
  "waitingForOperand (updateSecondaryDisplay b c) = waitingForOperand c"
  "justCalculated (updateSecondaryDisplay b c) = justCalculated c"
  "pendingResets (updateSecondaryDisplay b c) = pendingResets c"
  "displayPrimary (updateSecondaryDisplay b c) = displayPrimary c"
  "displayError (updateSecondaryDisplay b c) = displayError c"
  by (simp_all add: updateSecondaryDisplay_def split: option.split)

lemma clearSecondaryDisplay_fields [simp]:
  "currentInput (clearSecondaryDisplay c) = currentInput c"
  "previousInput (clearSecondaryDisplay c) = previousInput c"
  "operator (clearSecondaryDisplay c) = operator c"
  "waitingForOperand (clearSecondaryDisplay c) = waitingForOperand c"
  "justCalculated (clearSecondaryDisplay c) = justCalculated c"
  "pendingResets (clearSecondaryDisplay c) = pendingResets c"
  "displayPrimary (clearSecondaryDisplay c) = displayPrimary c"
  "displayError (clearSecondaryDisplay c) = displayError c"
  "displaySecondary (clearSecondaryDisplay c) = []"
  by (simp_all add: clearSecondaryDisplay_def)

lemma showError_fields [simp]:
  "currentInput (showError msg c) = currentInput c"
  "previousInput (showError msg c) = previousInput c"
  "operator (showError msg c) = operator c"
  "waitingForOperand (showError msg c) = waitingForOperand c"
  "justCalculated (showError msg c) = justCalculated c"
  "pendingResets (showError msg c) = Suc (pendingResets c)"
  "displayPrimary (showError msg c) = ''Error''"
  "displayError (showError msg c) = True"
  "displaySecondary (showError msg c) = msg"
  by (simp_all add: showError_def)

lemma set_operator_fields [simp]:
  "currentInput (set_operator op c) = currentInput c"
  "previousInput (set_operator op c) = previousInput c"
  "operator (set_operator op c) = Some op"
  "waitingForOperand (set_operator op c) = True"
  "justCalculated (set_operator op c) = False"
  "pendingResets (set_operator op c) = pendingResets c"
  by (simp_all add: set_operator_def)

text \<open>The ways out of \<^verbatim>\<open>performCalculation\<close>, and what its two callers make of them.\<close>

lemma performCalculation_cases:
  "performCalculation c = (Inl NotANumber, c) \<or>
   performCalculation c = (Inl UnknownOperator, c) \<or>
   performCalculation c = (Inl DivisionByZero, showError ''Cannot divide by zero'' c) \<or>
   (\<exists>r. performCalculation c = (Inr r, c))"
  by (simp add: performCalculation_def Let_def split: option.split operator.split)

lemma performCalculation_DivisionByZero:
  "fst (performCalculation c) = Inl DivisionByZero \<longleftrightarrow>
     \<not> isNaN (parseFloat (previousInput c)) \<and> operator c = Some Divide \<and>
     strict_equal (parseFloat (Str (currentInput c))) (literal 0 1)"
proof -
  have "\<not> isNaN x" if "strict_equal x y" for x y
    using that by (cases x; cases y) simp_all
  then show ?thesis
    unfolding performCalculation_def Let_def
    by (auto split: option.splits operator.splits)
qed

lemma handleOperator_cases:
  "handleOperator op c = c \<or>
   handleOperator op c = showError ''Cannot divide by zero'' c \<or>
   handleOperator op c = set_operator op c \<or>
   handleOperator op c =
     set_operator op (c\<lparr>previousInput := Num (parseFloat (Str (currentInput c)))\<rparr>) \<or>
   (\<exists>r. handleOperator op c =
      set_operator op (c\<lparr>currentInput := ToString r, previousInput := Num r\<rparr>))"
  using performCalculation_cases [of c]
  by (auto simp add: handleOperator_def Let_def)

lemma calculate_cases:
  "calculate c = c \<or>
   calculate c = showError ''Cannot divide by zero'' c \<or>
   ((\<exists>r. currentInput (calculate c) = ToString r) \<and> justCalculated (calculate c) \<and>
    operator (calculate c) = None \<and> \<not> waitingForOperand (calculate c))"
  using performCalculation_cases [of c]
  by (auto simp add: calculate_def)

section \<open>Runs and reachable states\<close>

lemma run_Nil [simp]: "run [] c = c"
  by (simp add: run_def)

lemma run_Cons [simp]: "run (e # es) c = run es (handle e c)"
  by (simp add: run_def)

lemma run_append: "run (es @ fs) c = run fs (run es c)"
  by (simp add: run_def)

lemma run_single: "run [e] c = handle e c"
  by simp

lemma reachable_run: "reachable c \<Longrightarrow> list_all possible es \<Longrightarrow> reachable (run es c)"
  by (induction es arbitrary: c) (simp_all add: reachable.step)

lemma reachable_run_Calculator:
  "list_all possible es \<Longrightarrow> reachable (run es (Calculator secondary))"
  by (rule reachable_run) (rule reachable.start)

text \<open>A key is a digit typed, or not, and then an action, or not.\<close>

lemma handleKeyPress_rule:
  assumes "P (if list_ex is_digit key then inputNumber key c else c)"
    and "\<And>a. P (handleAction a (if list_ex is_digit key then inputNumber key c else c))"
  shows "P (handleKeyPress key c)"
proof -
  define c' where "c' = (if list_ex is_digit key then inputNumber key c else c)"
  with assms have "P c'" "\<And>a. P (handleAction a c')" by simp_all
  then have "P (let c' = c'
      in if key = ''+'' then handleAction (Operator Add) c'
         else if key = ''-'' then handleAction (Operator Subtract) c'
         else if key = ''*'' then handleAction (Operator Multiply) c'
         else if key = ''/'' then handleAction (Operator Divide) c'
         else if key = ''.'' then handleAction Decimal c'
         else if key = ''='' \<or> key = ''Enter'' then handleAction Equals c'
         else if key = ''Escape'' then handleAction Clear_all c'
         else if key = ''Backspace'' then handleAction Backspace c'
         else if key = ''c'' \<or> key = ''C'' then handleAction Clear c'
         else c')"
    by (simp del: handleAction.simps)
  then show ?thesis
    by (simp only: handleKeyPress_def c'_def)
qed

lemma handleKeyPress_cases:
  "(handleKeyPress key c = c \<or> handleKeyPress key c = inputNumber key c \<and> list_ex is_digit key) \<or>
   (\<exists>a. handleKeyPress key c = handleAction a c \<or>
        handleKeyPress key c = handleAction a (inputNumber key c) \<and> list_ex is_digit key)"
  by (rule handleKeyPress_rule) auto

text \<open>After equals no operator is pending.\<close>

lemma inputNumber_no_operator:
  "justCalculated (inputNumber s c) \<Longrightarrow> justCalculated c \<and> operator (inputNumber s c) = operator c"
  by (simp add: inputNumber_def split: if_splits)

lemma handleAction_no_operator:
  assumes "justCalculated c \<Longrightarrow> operator c = None" "justCalculated (handleAction a c)"
  shows "operator (handleAction a c) = None"
proof (cases a)
  case (Operator op)
  with assms handleOperator_cases [of op c] show ?thesis by auto
next
  case Equals
  with assms calculate_cases [of c] show ?thesis by auto
next
  case Decimal
  with assms show ?thesis by (simp add: inputDecimal_def split: if_splits)
next
  case Clear
  with assms show ?thesis by (simp add: clear_def)
next
  case Clear_all
  with assms show ?thesis by (simp add: clearAll_def)
next
  case Backspace
  with assms show ?thesis by (simp add: backspace_def split: if_splits)
qed

lemma handle_no_operator:
  assumes "justCalculated c \<Longrightarrow> operator c = None" "justCalculated (handle e c)"
  shows "operator (handle e c) = None"
proof (cases e)
  case (Number d)
  with assms inputNumber_no_operator [of "digit_string d" c] show ?thesis by simp
next
  case (Action a)
  with assms show ?thesis by (simp add: handleAction_no_operator)
next
  case (KeyDown key)
  have typed: "operator (inputNumber key c) = None" if "justCalculated (inputNumber key c)"
    using inputNumber_no_operator [OF that] assms(1) by simp
  from handleKeyPress_cases [of key c] KeyDown assms typed show ?thesis
    by (auto simp add: handleAction_no_operator)
next
  case Timeout
  with assms show ?thesis by (auto simp add: timeout_def clearAll_def split: if_splits)
qed

lemma justCalculated_no_operator:
  "reachable c \<Longrightarrow> justCalculated c \<Longrightarrow> operator c = None"
proof (induction rule: reachable.induct)
  case (start secondary)
  then show ?case by (simp add: Calculator_def)
next
  case (step c e)
  then show ?case by (simp add: handle_no_operator)
qed

section \<open>Clearing and backspace\<close>

lemma formatNumber_zero: "formatNumber (Str ''0'') = ''0''"
  by code_simp

text \<open>
  Claim C7.  Whatever the state, \<^verbatim>\<open>clearAll\<close> gives the state of creation:
  \<^verbatim>\<open>currentInput\<close> is \<^verbatim>\<open>"0"\<close>, \<^verbatim>\<open>previousInput\<close> the empty string, \<^verbatim>\<open>operator\<close> is \<^verbatim>\<open>null\<close>, both
  flags are false, the primary display shows \<^verbatim>\<open>0\<close> without the error class and the
  secondary display is empty.  It is the constructor's state (for a page whose secondary
  display starts empty), but for the timeouts still pending, which \<^verbatim>\<open>clearAll\<close> does not
  cancel.
\<close>

theorem clearAll_restores_creation_state:
  "clearAll c = (Calculator '''')\<lparr>pendingResets := pendingResets c\<rparr> \<and>
   currentInput (clearAll c) = ''0'' \<and> previousInput (clearAll c) = Str '''' \<and>
   operator (clearAll c) = None \<and> waitingForOperand (clearAll c) = False \<and>
   justCalculated (clearAll c) = False \<and> displayPrimary (clearAll c) = ''0'' \<and>
   displayError (clearAll c) = False \<and> displaySecondary (clearAll c) = ''''"
  by (cases c) (simp add: clearAll_def Calculator_def updateDisplay_def
      clearSecondaryDisplay_def formatNumber_zero)

text \<open>
  Claim C8.  \<^verbatim>\<open>clear\<close> sets \<^verbatim>\<open>currentInput\<close> to \<^verbatim>\<open>"0"\<close> and leaves \<^verbatim>\<open>previousInput\<close> and
  \<^verbatim>\<open>operator\<close> as they are.  When \<^verbatim>\<open>currentInput\<close> is \<^verbatim>\<open>"0"\<close> already, no field of the state
  changes: all that \<^verbatim>\<open>clear\<close> does then is to draw the primary display again.
\<close>

theorem clear_resets_entry_only:
  "currentInput (clear c) = ''0'' \<and> previousInput (clear c) = previousInput c \<and>
   operator (clear c) = operator c \<and>
   (currentInput c = ''0'' \<longrightarrow>
      clear c = c\<lparr>displayPrimary := ''0'', displayError := False\<rparr>)"
  by (cases c) (simp add: clear_def updateDisplay_def formatNumber_zero)

theorem clear_resets_entry_only_witness:
  "currentInput (Calculator '''') = ''0'' \<and>
   clear (Calculator '''') = Calculator '''' \<and>
   operator (clear (Calculator '''')) = None"
  using clear_resets_entry_only [of "Calculator ''''"]
  by (simp add: Calculator_def updateDisplay_def formatNumber_zero)

lemma backspace_justCalculated: "justCalculated (backspace c) = justCalculated c"
  by (simp add: backspace_def)

lemma backspace_at_zero:
  "\<not> justCalculated c \<Longrightarrow> currentInput c = ''0'' \<Longrightarrow> currentInput (backspace c) = ''0''"
  by (simp add: backspace_def)

text \<open>
  Claim C9.  With \<^verbatim>\<open>justCalculated\<close> false, backspace on \<^verbatim>\<open>"0"\<close> leaves \<^verbatim>\<open>"0"\<close>, however often
  it is repeated; and where removing the last character would leave nothing,
  \<^verbatim>\<open>currentInput\<close> becomes \<^verbatim>\<open>"0"\<close>, not the empty string.
\<close>

theorem backspace_floor:
  assumes "\<not> justCalculated c"
  shows "(currentInput c = ''0'' \<longrightarrow> currentInput ((backspace ^^ n) c) = ''0'') \<and>
         (butlast (currentInput c) = [] \<longrightarrow> currentInput (backspace c) = ''0'')"
proof
  show "currentInput c = ''0'' \<longrightarrow> currentInput ((backspace ^^ n) c) = ''0''"
  proof
    assume z: "currentInput c = ''0''"
    have "currentInput ((backspace ^^ n) c) = ''0'' \<and> \<not> justCalculated ((backspace ^^ n) c)"
      by (induction n) (use assms z in \<open>simp_all add: backspace_at_zero backspace_justCalculated\<close>)
    then show "currentInput ((backspace ^^ n) c) = ''0''" ..
  qed
next
  show "butlast (currentInput c) = [] \<longrightarrow> currentInput (backspace c) = ''0''"
  proof
    assume e: "butlast (currentInput c) = []"
    have "\<not> 1 < length (currentInput c)"
    proof
      assume "1 < length (currentInput c)"
      then have "length (butlast (currentInput c)) > 0" by simp
      with e show False by simp
    qed
    with assms show "currentInput (backspace c) = ''0''"
      by (simp add: backspace_def)
  qed
qed

theorem backspace_floor_witness:
  "\<not> justCalculated (Calculator '''') \<and> currentInput (Calculator '''') = ''0'' \<and>
   butlast (currentInput (Calculator '''')) = [] \<and>
   currentInput ((backspace ^^ 3) (Calculator '''')) = ''0'' \<and>
   currentInput (backspace (Calculator '''')) = ''0''"
proof -
  have a: "\<not> justCalculated (Calculator '''')"
    by (simp add: Calculator_def)
  have b: "currentInput (Calculator '''') = ''0''"
    by (simp add: Calculator_def)
  show ?thesis
    using backspace_floor [OF a, of 3] a b by simp
qed

section \<open>Division by zero\<close>

lemma five_by_zero_state:
  "run five_by_zero (Calculator '''') =
     \<lparr>currentInput = ''0'', previousInput = Num (Finite False 5629499534213120 (- 50)),
      operator = Some Divide, waitingForOperand = False, justCalculated = False,
      displayPrimary = ''0'', displayError = False,
      displaySecondary = ''5 '' @ [CHR 0xC3, CHR 0xB7], pendingResets = 0\<rparr>"
  by code_simp

lemma five_by_zero_fails:
  "fst (performCalculation (run five_by_zero (Calculator ''''))) = Inl DivisionByZero"
  by (subst five_by_zero_state) code_simp

lemma five_by_zero_reachable: "reachable (run five_by_zero (Calculator ''''))"
  by (rule reachable_run_Calculator) (simp add: five_by_zero_def)

text \<open>
  Claim C1.  When the evaluation that \<^verbatim>\<open>handleOperator\<close> or \<^verbatim>\<open>calculate\<close> starts ends in the
  division-by-zero branch of \<^verbatim>\<open>performCalculation\<close> (the operator is \<^verbatim>\<open>divide\<close> and
  \<^verbatim>\<open>currentInput\<close> parses to zero, both operands being numbers), the primary display shows
  \<^verbatim>\<open>Error\<close>, the secondary display shows the message \<^verbatim>\<open>Cannot divide by zero\<close>, and
  \<^verbatim>\<open>currentInput\<close>, \<^verbatim>\<open>previousInput\<close>, \<^verbatim>\<open>operator\<close> and the two flags are as before:
  \<^verbatim>\<open>justCalculated\<close> is not set by the failing call, and in a reachable state it is false.
\<close>

theorem division_by_zero_error_display:
  assumes fails: "fst (performCalculation c) = Inl DivisionByZero"
    and operand: "previousInput c \<noteq> Str ''''" "\<not> waitingForOperand c"
  shows "operator c = Some Divide \<and>
         strict_equal (parseFloat (Str (currentInput c))) (literal 0 1) \<and>
         handleOperator op c = showError ''Cannot divide by zero'' c \<and>
         calculate c = showError ''Cannot divide by zero'' c \<and>
         displayPrimary (calculate c) = ''Error'' \<and>
         displaySecondary (calculate c) = ''Cannot divide by zero'' \<and>
         displaySecondary (calculate c) \<noteq> [] \<and>
         currentInput (calculate c) = currentInput c \<and>
         previousInput (calculate c) = previousInput c \<and>
         operator (calculate c) = operator c \<and>
         waitingForOperand (calculate c) = waitingForOperand c \<and>
         justCalculated (calculate c) = justCalculated c \<and>
         (reachable c \<longrightarrow> \<not> justCalculated (calculate c))"
proof -
  from fails have div: "operator c = Some Divide"
    and zero: "strict_equal (parseFloat (Str (currentInput c))) (literal 0 1)"
    by (simp_all add: performCalculation_DivisionByZero)
  from fails performCalculation_cases [of c]
  have pc: "performCalculation c = (Inl DivisionByZero, showError ''Cannot divide by zero'' c)"
    by auto
  from pc div operand have h: "handleOperator op c = showError ''Cannot divide by zero'' c"
    by (simp add: handleOperator_def)
  from pc div operand have e: "calculate c = showError ''Cannot divide by zero'' c"
    by (simp add: calculate_def)
  have "\<not> justCalculated c" if "reachable c"
    using justCalculated_no_operator [OF that] div by auto
  with div zero h e show ?thesis by simp
qed

theorem division_by_zero_error_display_witness:
  "fst (performCalculation (run five_by_zero (Calculator ''''))) = Inl DivisionByZero \<and>
   previousInput (run five_by_zero (Calculator '''')) \<noteq> Str '''' \<and>
   \<not> waitingForOperand (run five_by_zero (Calculator '''')) \<and>
   reachable (run five_by_zero (Calculator '''')) \<and>
   displayPrimary (calculate (run five_by_zero (Calculator ''''))) = ''Error'' \<and>
   currentInput (calculate (run five_by_zero (Calculator ''''))) = ''0'' \<and>
   handleOperator Add (run five_by_zero (Calculator '''')) =
     calculate (run five_by_zero (Calculator '''')) \<and>
   \<not> justCalculated (calculate (run five_by_zero (Calculator '''')))"
proof -
  have b: "previousInput (run five_by_zero (Calculator '''')) \<noteq> Str ''''"
    and c: "\<not> waitingForOperand (run five_by_zero (Calculator ''''))"
    and d: "currentInput (run five_by_zero (Calculator '''')) = ''0''"
    and e: "\<not> justCalculated (run five_by_zero (Calculator ''''))"
    by (simp_all add: five_by_zero_state)
  show ?thesis
    using division_by_zero_error_display [OF five_by_zero_fails b c, of Add]
      five_by_zero_fails b c d e five_by_zero_reachable
    by simp
qed

section \<open>Entry of digits and points\<close>

lemma digit_string_single: "\<exists>ch. digit_string d = [ch] \<and> is_digit ch \<and> ch \<noteq> CHR ''.''"
  by (cases d) (simp_all add: is_digit_def)

lemma inputNumber_typing:
  "\<not> waitingForOperand c \<Longrightarrow> \<not> justCalculated c \<Longrightarrow>
   inputNumber digit c =
     updateDisplay (c\<lparr>currentInput := (if currentInput c = ''0'' then digit
                                        else currentInput c @ digit)\<rparr>)"
  by (simp add: inputNumber_def)

lemma inputDecimal_typing:
  "\<not> waitingForOperand c \<Longrightarrow> \<not> justCalculated c \<Longrightarrow>
   inputDecimal c =
     updateDisplay (if CHR ''.'' \<notin> set (currentInput c)
                    then c\<lparr>currentInput := currentInput c @ ''.''\<rparr> else c)"
  by (simp add: inputDecimal_def)

text \<open>Typing after something other than the initial zero only appends.\<close>

lemma typing_appends:
  "\<not> waitingForOperand c \<Longrightarrow> \<not> justCalculated c \<Longrightarrow> list_all is_entry es \<Longrightarrow>
   currentInput c \<noteq> ''0'' \<Longrightarrow> currentInput c \<noteq> [] \<Longrightarrow>
   currentInput (run es c) =
     currentInput c @
       (if CHR ''.'' \<in> set (currentInput c) then filter (\<lambda>x. x \<noteq> CHR ''.'') (typed es)
        else first_point_only (typed es))"
proof (induction es arbitrary: c)
  case Nil
  then show ?case by (simp add: typed_def)
next
  case (Cons e es)
  show ?case
  proof (cases e)
    case (Number d)
    obtain ch where ch: "digit_string d = [ch]" "ch \<noteq> CHR ''.''"
      using digit_string_single [of d] by blast
    let ?c = "inputNumber (digit_string d) c"
    have cur: "currentInput ?c = currentInput c @ [ch]"
      using Cons.prems ch by (simp add: inputNumber_typing)
    have flags: "\<not> waitingForOperand ?c" "\<not> justCalculated ?c"
      using Cons.prems by (simp_all add: inputNumber_typing)
    have ne: "currentInput ?c \<noteq> ''0''" "currentInput ?c \<noteq> []"
      using Cons.prems cur by (cases "currentInput c"; simp)+
    have "currentInput (run es ?c) =
            currentInput ?c @
              (if CHR ''.'' \<in> set (currentInput ?c)
               then filter (\<lambda>x. x \<noteq> CHR ''.'') (typed es)
               else first_point_only (typed es))"
      using Cons.IH [OF flags _ ne] Cons.prems by simp
    with Number cur ch show ?thesis
      by (simp add: typed_def)
  next
    case (Action a)
    with Cons.prems have a: "a = Decimal"
      by (cases a) simp_all
    let ?c = "inputDecimal c"
    have cur: "currentInput ?c =
                 (if CHR ''.'' \<in> set (currentInput c) then currentInput c
                  else currentInput c @ ''.'')"
      using Cons.prems by (simp add: inputDecimal_typing)
    have flags: "\<not> waitingForOperand ?c" "\<not> justCalculated ?c"
      using Cons.prems by (simp_all add: inputDecimal_typing)
    have ne: "currentInput ?c \<noteq> ''0''" "currentInput ?c \<noteq> []"
      using Cons.prems cur by (cases "currentInput c"; simp)+
    have "currentInput (run es ?c) =
            currentInput ?c @
              (if CHR ''.'' \<in> set (currentInput ?c)
               then filter (\<lambda>x. x \<noteq> CHR ''.'') (typed es)
               else first_point_only (typed es))"
      using Cons.IH [OF flags _ ne] Cons.prems by simp
    with Action a cur show ?thesis
      by (simp add: typed_def)
  next
    case (KeyDown key)
    with Cons.prems show ?thesis by simp
  next
    case Timeout
    with Cons.prems show ?thesis by simp
  qed
qed

text \<open>Typing from the initial zero.\<close>

lemma typing_from_zero:
  "\<not> waitingForOperand c \<Longrightarrow> \<not> justCalculated c \<Longrightarrow> list_all is_entry es \<Longrightarrow>
   currentInput c = ''0'' \<Longrightarrow>
   currentInput (run es c) = concatenation_rule (typed es)"
proof (induction es arbitrary: c)
  case Nil
  then show ?case by (simp add: typed_def concatenation_rule_def)
next
  case (Cons e es)
  show ?case
  proof (cases e)
    case (Number d)
    obtain ch where ch: "digit_string d = [ch]" "ch \<noteq> CHR ''.''"
      using digit_string_single [of d] by blast
    let ?c = "inputNumber (digit_string d) c"
    have cur: "currentInput ?c = [ch]"
      using Cons.prems ch by (simp add: inputNumber_typing)
    have flags: "\<not> waitingForOperand ?c" "\<not> justCalculated ?c"
      using Cons.prems by (simp_all add: inputNumber_typing)
    have es: "list_all is_entry es"
      using Cons.prems by simp
    show ?thesis
    proof (cases "ch = CHR ''0''")
      case True
      with cur have "currentInput (run es ?c) = concatenation_rule (typed es)"
        using Cons.IH [OF flags es] by simp
      with Number ch True show ?thesis
        by (simp add: typed_def concatenation_rule_def)
    next
      case False
      with cur ch have "currentInput (run es ?c) = [ch] @ first_point_only (typed es)"
        using typing_appends [OF flags es] by simp
      with Number ch False show ?thesis
        by (simp add: typed_def concatenation_rule_def)
    qed
  next
    case (Action a)
    with Cons.prems have a: "a = Decimal"
      by (cases a) simp_all
    let ?c = "inputDecimal c"
    have cur: "currentInput ?c = ''0.''"
      using Cons.prems by (simp add: inputDecimal_typing)
    have flags: "\<not> waitingForOperand ?c" "\<not> justCalculated ?c"
      using Cons.prems by (simp_all add: inputDecimal_typing)
    have es: "list_all is_entry es"
      using Cons.prems by simp
    from cur have "currentInput (run es ?c) = ''0.'' @ filter (\<lambda>x. x \<noteq> CHR ''.'') (typed es)"
      using typing_appends [OF flags es] by simp
    with Action a show ?thesis
      by (simp add: typed_def concatenation_rule_def)
  next
    case (KeyDown key)
    with Cons.prems show ?thesis by simp
  next
    case Timeout
    with Cons.prems show ?thesis by simp
  qed
qed

text \<open>
  Claim C5.  After any sequence of digits and decimal points typed into the initial state,
  \<^verbatim>\<open>currentInput\<close> is what the concatenation rule makes of the characters typed: the
  leading \<^verbatim>\<open>"0"\<close> is replaced by the first digit, and of the points only the first is
  retained.  The sequence \<^verbatim>\<open>1 . . 5\<close> of the specification gives \<^verbatim>\<open>"1.5"\<close>.
\<close>

theorem digit_entry_concatenation:
  assumes "list_all is_entry es"
  shows "currentInput (run es (Calculator secondary)) = concatenation_rule (typed es)"
  using assms by (intro typing_from_zero) (simp_all add: Calculator_def)

theorem digit_entry_concatenation_witness:
  "list_all is_entry [Number D1, Action Decimal, Action Decimal, Number D5] \<and>
   currentInput (run [Number D1, Action Decimal, Action Decimal, Number D5] (Calculator '''')) =
     ''1.5''"
proof -
  have a: "list_all is_entry [Number D1, Action Decimal, Action Decimal, Number D5]"
    by simp
  have b: "concatenation_rule (typed [Number D1, Action Decimal, Action Decimal, Number D5]) =
             ''1.5''"
    by (simp add: concatenation_rule_def typed_def)
  show ?thesis
    using digit_entry_concatenation [OF a, of "''''"] a b by simp
qed

section \<open>The strings of Numbers\<close>

text \<open>
  What the display makes of some strings: \<^verbatim>\<open>toLocaleString\<close> rounds the shortest decimal, not
  the binary value (of \<^verbatim>\<open>95526066.1\<close>, \<open>95526066.09999999403...\<close>), and a tie goes up.
\<close>

lemma formatNumber_examples:
  "formatNumber (Str ''95526066.1'') = ''95526066.1''"
  "formatNumber (Str ''1.000000005'') = ''1.00000001''"
  "formatNumber (Str ''0.30000000000000004'') = ''0.3''"
  "formatNumber (Str ''12.'') = ''12''"
  "formatNumber (Str ''-5'') = ''-5''"
  "formatNumber (Str ''12345678901'') = ''1.234568e+10''"
  "formatNumber (Str ''F1'') = ''0''"
  by code_simp+

lemma digit_char_nonzero: "0 < d \<Longrightarrow> d < 10 \<Longrightarrow> digit_char d \<noteq> CHR ''0''"
proof -
  assume "0 < d" "d < 10"
  then have "d = 1 \<or> d = 2 \<or> d = 3 \<or> d = 4 \<or> d = 5 \<or> d = 6 \<or> d = 7 \<or> d = 8 \<or> d = 9"
    by arith
  then show ?thesis
    by (auto simp add: digit_char_def)
qed

lemma decimal_not_Nil: "decimal n \<noteq> []"
  by (subst decimal.simps) simp

lemma decimal_leading_digit: "0 < n \<Longrightarrow> hd (decimal n) \<noteq> CHR ''0''"
proof (induction n rule: decimal.induct)
  case (1 n)
  show ?case
  proof (cases "n < 10")
    case True
    with "1.prems" show ?thesis
      by (subst decimal.simps) (simp add: digit_char_nonzero)
  next
    case False
    then have "0 < n div 10" by simp
    with False "1.IH" have "hd (decimal (n div 10)) \<noteq> CHR ''0''" by simp
    with False show ?thesis
      by (subst decimal.simps) (simp add: decimal_not_Nil)
  qed
qed

lemma no_leading_zero_hd: "s \<noteq> [] \<Longrightarrow> hd s \<noteq> CHR ''0'' \<Longrightarrow> \<not> redundant_leading_zero s"
  by (cases s rule: redundant_leading_zero.cases) simp_all

lemma render_not_Nil: "ds \<noteq> [] \<Longrightarrow> render ds n \<noteq> []"
  by (simp add: render_def Let_def)

lemma render_no_leading_zero:
  assumes "ds \<noteq> []" "hd ds \<noteq> CHR ''0''"
  shows "\<not> redundant_leading_zero (render ds n)"
proof -
  consider (int) "int (length ds) \<le> n \<and> n \<le> 21"
    | (point) "\<not> (int (length ds) \<le> n \<and> n \<le> 21)" "0 < n \<and> n \<le> 21"
    | (small) "\<not> (int (length ds) \<le> n \<and> n \<le> 21)" "\<not> (0 < n \<and> n \<le> 21)" "- 6 < n \<and> n \<le> 0"
    | (exp) "\<not> (int (length ds) \<le> n \<and> n \<le> 21)" "\<not> (0 < n \<and> n \<le> 21)" "\<not> (- 6 < n \<and> n \<le> 0)"
    by blast
  then show ?thesis
  proof cases
    case int
    with assms show ?thesis
      by (intro no_leading_zero_hd) (simp_all add: render_def)
  next
    case point
    then have "take (nat n) ds \<noteq> []" using assms by simp
    moreover have "hd (take (nat n) ds) = hd ds" using point by (cases ds) (simp_all add: take_Cons')
    ultimately show ?thesis using point assms
      by (intro no_leading_zero_hd) (simp_all add: render_def)
  next
    case small
    then show ?thesis
      by (simp add: render_def is_digit_def)
  next
    case exp
    with assms show ?thesis
      by (intro no_leading_zero_hd) (auto simp add: render_def Let_def)
  qed
qed

lemma round_half_even_floor:
  "round_half_even sc = ratio_floor sc \<or> round_half_even sc = ratio_floor sc + 1"
  by (cases sc) (simp add: Let_def)

lemma digits_at_positive: "digits_at x v n k = Some s \<Longrightarrow> 0 < s"
proof -
  assume a: "digits_at x v n k = Some s"
  let ?sc = "ratio_div v (pow_ratio 10 (n - k))"
  let ?lo = "ratio_floor ?sc"
  have p: "(0::int) < 10 ^ nat (k - 1)" by simp
  from a have "(10 ^ nat (k - 1) \<le> ?lo \<and> (s = ?lo \<or> s = ?lo + 1)) \<or>
               (10 ^ nat (k - 1) \<le> ?lo + 1 \<and> s = ?lo + 1)"
    using round_half_even_floor [of ?sc]
    by (auto simp add: digits_at_def Let_def split: if_splits)
  with p show ?thesis by linarith
qed

lemma shortest_positive: "shortest x v n ks = Some (s, k) \<Longrightarrow> 0 < s"
  by (induction ks) (auto split: option.splits dest: digits_at_positive)

lemma shortest_digits_positive: "shortest_digits m e = Some (s, n) \<Longrightarrow> 0 < s"
proof -
  assume a: "shortest_digits m e = Some (s, n)"
  let ?ks = "[1, 2, 3, 4, 5, 6, 7, 8, 9, 10, 11, 12, 13, 14, 15, 16, 17] :: int list"
  from a obtain n' where n': "decimal_exponent (the_value m e) = Some n'"
    by (cases "decimal_exponent (the_value m e)") (simp_all add: shortest_digits_def)
  with a obtain s' k where found:
      "shortest (Finite False m e) (the_value m e) n' ?ks = Some (s', k)"
    by (cases "shortest (Finite False m e) (the_value m e) n' ?ks")
      (auto simp add: shortest_digits_def simp del: shortest.simps)
  then have "0 < s'" by (rule shortest_positive)
  moreover from a n' found have "s = (if s' = 10 ^ nat k then 1 else s')"
    by (auto simp add: shortest_digits_def simp del: shortest.simps split: if_splits)
  ultimately show ?thesis by simp
qed

lemma to_decimal_cases:
  "to_decimal m e = ''NaN'' \<or> (\<exists>s n. 0 < s \<and> to_decimal m e = render (decimal s) n)"
proof (cases "shortest_digits m e")
  case None
  then show ?thesis by (simp add: to_decimal_def)
next
  case (Some sn)
  obtain s n where sn: "sn = (s, n)" by (cases sn)
  with Some have "0 < s" by (auto dest: shortest_digits_positive)
  with Some sn show ?thesis by (auto simp add: to_decimal_def)
qed

lemma to_decimal_not_Nil: "to_decimal m e \<noteq> []"
  using to_decimal_cases [of m e]
  by (auto simp add: render_not_Nil decimal_not_Nil)

lemma to_decimal_no_leading_zero: "\<not> redundant_leading_zero (to_decimal m e)"
proof -
  have "\<not> redundant_leading_zero (render (decimal s) n)" if "0 < s" for s n
    using that by (intro render_no_leading_zero decimal_not_Nil decimal_leading_digit)
  then show ?thesis
    using to_decimal_cases [of m e] by auto
qed

lemma ToString_not_Nil: "ToString x \<noteq> []"
  by (cases x) (simp_all add: to_decimal_not_Nil)

lemma ToString_no_leading_zero: "\<not> redundant_leading_zero (ToString x)"
proof (cases x)
  case (Finite neg m e)
  have "\<not> redundant_leading_zero (CHR ''-'' # to_decimal m e)"
    by (cases "to_decimal m e") simp_all
  with Finite show ?thesis
    by (simp add: to_decimal_no_leading_zero)
qed simp_all

section \<open>No redundant leading zero\<close>

lemma leading_zero_append:
  "\<not> redundant_leading_zero s \<Longrightarrow> s \<noteq> ''0'' \<Longrightarrow> \<not> redundant_leading_zero t \<Longrightarrow>
   \<not> redundant_leading_zero (s @ t)"
  by (cases s rule: redundant_leading_zero.cases; cases t) simp_all

lemma leading_zero_butlast:
  "\<not> redundant_leading_zero s \<Longrightarrow> \<not> redundant_leading_zero (butlast s)"
  by (cases s rule: redundant_leading_zero.cases) simp_all

lemma leading_zero_digit_string: "\<not> redundant_leading_zero (digit_string d)"
  by (cases d) simp_all

text \<open>A key string is one character as far as digits go, and no name of a key starts with one.\<close>

lemma leading_zero_key_value: "key_value key \<Longrightarrow> \<not> redundant_leading_zero key"
  by (cases key rule: redundant_leading_zero.cases) (auto simp add: key_value_def)

lemma inputNumber_leading_zero:
  assumes "\<not> redundant_leading_zero (currentInput c)" "\<not> redundant_leading_zero s"
  shows "\<not> redundant_leading_zero (currentInput (inputNumber s c))"
  using assms by (simp add: inputNumber_def leading_zero_append)

lemma inputDecimal_leading_zero:
  assumes "\<not> redundant_leading_zero (currentInput c)"
  shows "\<not> redundant_leading_zero (currentInput (inputDecimal c))"
proof -
  have "\<not> redundant_leading_zero ''0.''" by (simp add: is_digit_def)
  moreover have "\<not> redundant_leading_zero (currentInput c @ ''.'')"
    using assms by (cases "currentInput c" rule: redundant_leading_zero.cases)
      (simp_all add: is_digit_def)
  ultimately show ?thesis using assms
    by (simp add: inputDecimal_def)
qed

lemma handleOperator_leading_zero:
  assumes "\<not> redundant_leading_zero (currentInput c)"
  shows "\<not> redundant_leading_zero (currentInput (handleOperator op c))"
  using handleOperator_cases [of op c] assms
  by (auto simp add: ToString_no_leading_zero)

lemma calculate_leading_zero:
  assumes "\<not> redundant_leading_zero (currentInput c)"
  shows "\<not> redundant_leading_zero (currentInput (calculate c))"
  using calculate_cases [of c] assms
  by (auto simp add: ToString_no_leading_zero)

lemma handleAction_leading_zero:
  assumes "\<not> redundant_leading_zero (currentInput c)"
  shows "\<not> redundant_leading_zero (currentInput (handleAction a c))"
  using assms
  by (cases a)
    (simp_all add: handleOperator_leading_zero calculate_leading_zero
      inputDecimal_leading_zero clear_def clearAll_def backspace_def leading_zero_butlast)

lemma handle_leading_zero:
  assumes "\<not> redundant_leading_zero (currentInput c)" "possible e"
  shows "\<not> redundant_leading_zero (currentInput (handle e c))"
proof (cases e)
  case (Number d)
  with assms show ?thesis
    by (simp add: inputNumber_leading_zero leading_zero_digit_string)
next
  case (Action a)
  with assms show ?thesis by (simp add: handleAction_leading_zero)
next
  case (KeyDown key)
  with assms have "\<not> redundant_leading_zero key"
    by (simp add: leading_zero_key_value)
  with assms(1) have "\<not> redundant_leading_zero (currentInput (inputNumber key c))"
    by (rule inputNumber_leading_zero)
  with assms(1) KeyDown handleKeyPress_cases [of key c] show ?thesis
    by (auto simp add: handleAction_leading_zero)
next
  case Timeout
  with assms show ?thesis by (simp add: timeout_def clearAll_def)
qed

text \<open>
  Claim C10.  In every reachable state \<^verbatim>\<open>currentInput\<close> has no redundant leading zero: it
  never starts with the character \<^verbatim>\<open>0\<close> followed by a digit.  A digit typed on \<^verbatim>\<open>"0"\<close>
  replaces it, the strings of Numbers have no such zero, and backspace only shortens.
\<close>

theorem no_redundant_leading_zero:
  assumes "reachable c"
  shows "\<not> redundant_leading_zero (currentInput c)"
  using assms
proof (induction rule: reachable.induct)
  case (start secondary)
  show ?case by (simp add: Calculator_def)
next
  case (step c e)
  then show ?case by (simp add: handle_leading_zero)
qed

theorem no_redundant_leading_zero_witness:
  "reachable (run [Number D0, Number D0, Number D7] (Calculator '''')) \<and>
   currentInput (run [Number D0, Number D0, Number D7] (Calculator '''')) = ''7'' \<and>
   \<not> redundant_leading_zero
       (currentInput (run [Number D0, Number D0, Number D7] (Calculator '''')))"
proof -
  have r: "reachable (run [Number D0, Number D0, Number D7] (Calculator ''''))"
    by (rule reachable_run_Calculator) simp
  have "currentInput (run [Number D0, Number D0, Number D7] (Calculator '''')) = ''7''"
    by (simp add: Calculator_def inputNumber_def)
  with r no_redundant_leading_zero [OF r] show ?thesis by simp
qed

section \<open>Typed input is a decimal numeral\<close>

lemma decimal_numeral_digit: "is_digit ch \<Longrightarrow> decimal_numeral [ch]"
  by (auto simp add: decimal_numeral_def is_digit_def)

lemma decimal_numeral_append_digit:
  "decimal_numeral s \<Longrightarrow> is_digit ch \<Longrightarrow> ch \<noteq> CHR ''.'' \<Longrightarrow> decimal_numeral (s @ [ch])"
  by (simp add: decimal_numeral_def)

lemma decimal_numeral_append_point:
  "decimal_numeral s \<Longrightarrow> CHR ''.'' \<notin> set s \<Longrightarrow> decimal_numeral (s @ ''.'')"
proof -
  assume a: "decimal_numeral s" "CHR ''.'' \<notin> set s"
  then have "filter (\<lambda>c. c = CHR ''.'') s = []"
    by (auto simp add: filter_empty_conv)
  with a show ?thesis
    by (simp add: decimal_numeral_def)
qed

lemma decimal_numeral_butlast:
  assumes "decimal_numeral s" "1 < length s"
  shows "decimal_numeral (butlast s)"
proof -
  from assms(2) obtain x y r where s: "s = x # y # r"
    by (cases s rule: redundant_leading_zero.cases) simp_all
  obtain t l where t: "y # r = t @ [l]"
    by (metis append_butlast_last_id list.distinct(1))
  with s have bl: "butlast s = x # t" by simp
  from assms(1) s t have "is_digit x" "list_all (\<lambda>c. is_digit c \<or> c = CHR ''.'') (x # t)"
    "length (filter (\<lambda>c. c = CHR ''.'') (x # t)) \<le> 1"
    by (auto simp add: decimal_numeral_def split: if_splits)
  with bl show ?thesis
    by (simp add: decimal_numeral_def)
qed

lemma is_digit_not_point: "is_digit ch \<Longrightarrow> ch \<noteq> CHR ''.''"
  by (auto simp add: is_digit_def)

lemma inputNumber_entry:
  assumes "entry_invariant c" "is_digit ch"
  shows "entry_invariant (inputNumber [ch] c)"
  using assms is_digit_not_point [of ch]
  by (auto simp add: entry_invariant_def inputNumber_def decimal_numeral_digit
      decimal_numeral_append_digit)

lemma inputDecimal_entry:
  assumes "entry_invariant c"
  shows "entry_invariant (inputDecimal c)"
proof -
  have "decimal_numeral ''0.''"
    by (simp add: decimal_numeral_def is_digit_def)
  with assms show ?thesis
    by (auto simp add: entry_invariant_def inputDecimal_def decimal_numeral_append_point)
qed

lemma handleOperator_entry:
  assumes "entry_invariant c"
  shows "entry_invariant (handleOperator op c)"
  using handleOperator_cases [of op c] assms
  by (auto simp add: entry_invariant_def ToString_not_Nil)

lemma calculate_entry:
  assumes "entry_invariant c"
  shows "entry_invariant (calculate c)"
  using calculate_cases [of c] assms ToString_not_Nil
  by (auto simp add: entry_invariant_def) metis+

lemma decimal_numeral_zero: "decimal_numeral ''0''"
  by (simp add: decimal_numeral_def is_digit_def)

lemma butlast_not_Nil: "1 < length s \<Longrightarrow> butlast s \<noteq> []"
  by (cases s) simp_all

lemma backspace_entry:
  assumes "entry_invariant c"
  shows "entry_invariant (backspace c)"
  using assms
  by (auto simp add: entry_invariant_def backspace_def decimal_numeral_zero
      decimal_numeral_butlast butlast_not_Nil)

lemma handleAction_entry:
  assumes "entry_invariant c"
  shows "entry_invariant (handleAction a c)"
proof (cases a)
  case Clear
  with assms show ?thesis
    by (simp add: entry_invariant_def clear_def decimal_numeral_zero)
next
  case Clear_all
  then show ?thesis
    by (simp add: entry_invariant_def clearAll_def decimal_numeral_zero)
qed (use assms in \<open>simp_all add: handleOperator_entry calculate_entry
      inputDecimal_entry backspace_entry\<close>)

lemma handle_entry:
  assumes "entry_invariant c" "digits_only e"
  shows "entry_invariant (handle e c)"
proof (cases e)
  case (Number d)
  obtain ch where "digit_string d = [ch]" "is_digit ch"
    using digit_string_single [of d] by blast
  with Number assms(1) show ?thesis by (simp add: inputNumber_entry)
next
  case (Action a)
  with assms(1) show ?thesis by (simp add: handleAction_entry)
next
  case (KeyDown key)
  show ?thesis
  proof (cases "list_ex is_digit key")
    case True
    with KeyDown assms(2) have "length key = 1" by simp
    then obtain ch where key: "key = [ch]"
      by (cases key) simp_all
    with True have "is_digit ch" by simp
    with assms(1) key have "entry_invariant (inputNumber key c)"
      by (simp add: inputNumber_entry)
    with assms(1) KeyDown handleKeyPress_cases [of key c] show ?thesis
      by (auto simp add: handleAction_entry)
  next
    case False
    with assms(1) KeyDown handleKeyPress_cases [of key c] show ?thesis
      by (auto simp add: handleAction_entry)
  qed
next
  case Timeout
  with assms(1) show ?thesis
    by (simp add: timeout_def entry_invariant_def clearAll_def decimal_numeral_zero)
qed

lemma run_entry:
  "entry_invariant c \<Longrightarrow> list_all digits_only es \<Longrightarrow> entry_invariant (run es c)"
  by (induction es arbitrary: c) (simp_all add: handle_entry)

lemma Calculator_entry: "entry_invariant (Calculator secondary)"
  by (simp add: entry_invariant_def Calculator_def decimal_numeral_zero)

text \<open>No event at all empties \<^verbatim>\<open>currentInput\<close>: a key with a digit in it is not empty.\<close>

lemma inputNumber_not_Nil:
  "currentInput c \<noteq> [] \<Longrightarrow> s \<noteq> [] \<Longrightarrow> currentInput (inputNumber s c) \<noteq> []"
  by (simp add: inputNumber_def)

lemma handleAction_not_Nil:
  assumes "currentInput c \<noteq> []"
  shows "currentInput (handleAction a c) \<noteq> []"
proof (cases a)
  case (Operator op)
  with assms handleOperator_cases [of op c] show ?thesis
    by (auto simp add: ToString_not_Nil)
next
  case Equals
  with assms calculate_cases [of c] show ?thesis
    by (auto simp add: ToString_not_Nil)
next
  case Decimal
  with assms show ?thesis by (simp add: inputDecimal_def)
next
  case Clear
  then show ?thesis by (simp add: clear_def)
next
  case Clear_all
  then show ?thesis by (simp add: clearAll_def)
next
  case Backspace
  with assms show ?thesis by (simp add: backspace_def butlast_not_Nil)
qed

lemma handle_not_Nil:
  assumes "currentInput c \<noteq> []"
  shows "currentInput (handle e c) \<noteq> []"
proof (cases e)
  case (Number d)
  obtain ch where "digit_string d = [ch]"
    using digit_string_single [of d] by blast
  with Number assms show ?thesis by (simp add: inputNumber_not_Nil)
next
  case (Action a)
  with assms show ?thesis by (simp add: handleAction_not_Nil)
next
  case (KeyDown key)
  have "currentInput (inputNumber key c) \<noteq> []" if "list_ex is_digit key"
  proof -
    from that have "key \<noteq> []" by auto
    with assms show ?thesis by (rule inputNumber_not_Nil)
  qed
  with assms KeyDown handleKeyPress_cases [of key c] show ?thesis
    by (auto simp add: handleAction_not_Nil)
next
  case Timeout
  with assms show ?thesis by (simp add: timeout_def clearAll_def)
qed

lemma reachable_not_Nil: "reachable c \<Longrightarrow> currentInput c \<noteq> []"
proof (induction rule: reachable.induct)
  case (start secondary)
  show ?case by (simp add: Calculator_def)
next
  case (step c e)
  then show ?case by (simp add: handle_not_Nil)
qed

text \<open>
  The key \<^verbatim>\<open>F1\<close> passes the test of line 77, and \<^verbatim>\<open>inputNumber\<close> makes its name the input.
\<close>

lemma function_key_is_entered:
  "reachable (run [KeyDown ''F1''] (Calculator '''')) \<and>
   currentInput (run [KeyDown ''F1''] (Calculator '''')) = ''F1'' \<and>
   \<not> waitingForOperand (run [KeyDown ''F1''] (Calculator '''')) \<and>
   \<not> justCalculated (run [KeyDown ''F1''] (Calculator '''')) \<and>
   \<not> digits_only (KeyDown ''F1'') \<and>
   \<not> decimal_numeral ''F1''"
proof -
  have "reachable (run [KeyDown ''F1''] (Calculator ''''))"
    by (rule reachable_run_Calculator) (simp add: key_value_def)
  moreover have "\<not> decimal_numeral ''F1''"
    by (simp add: decimal_numeral_def is_digit_def)
  ultimately show ?thesis
    by (simp add: Calculator_def handleKeyPress_def inputNumber_def is_digit_def)
qed

text \<open>
  Claim C3, as the code has it.  In every reachable state \<^verbatim>\<open>currentInput\<close> is not empty.  As
  long as every event that reaches \<^verbatim>\<open>inputNumber\<close> brings it one digit (the clicks, and the
  keys whose value is a digit; not a key such as \<^verbatim>\<open>F1\<close>, whose name has a digit in it),
  \<^verbatim>\<open>currentInput\<close> is a (possibly partial) decimal numeral whenever neither
  \<^verbatim>\<open>waitingForOperand\<close> nor \<^verbatim>\<open>justCalculated\<close> is set, that is whenever it was typed, and every
  such event keeps it so.  With one of the flags set \<^verbatim>\<open>currentInput\<close> may hold the string of a
  computed Number, which can have a sign or an exponent, or be \<^verbatim>\<open>Infinity\<close> or \<^verbatim>\<open>NaN\<close>.
\<close>

theorem typed_input_is_decimal_numeral:
  "(reachable c \<longrightarrow> currentInput c \<noteq> []) \<and>
   (list_all digits_only es \<longrightarrow>
      waitingForOperand (run es (Calculator secondary)) \<or>
      justCalculated (run es (Calculator secondary)) \<or>
      decimal_numeral (currentInput (run es (Calculator secondary)))) \<and>
   (entry_invariant c' \<and> digits_only e \<longrightarrow> entry_invariant (handle e c'))"
proof -
  have "entry_invariant (run es (Calculator secondary))" if "list_all digits_only es"
    using Calculator_entry that by (rule run_entry)
  then have typed: "list_all digits_only es \<longrightarrow>
      waitingForOperand (run es (Calculator secondary)) \<or>
      justCalculated (run es (Calculator secondary)) \<or>
      decimal_numeral (currentInput (run es (Calculator secondary)))"
    by (simp add: entry_invariant_def)
  have "reachable c \<longrightarrow> currentInput c \<noteq> []"
    by (simp add: reachable_not_Nil)
  moreover have "entry_invariant c' \<and> digits_only e \<longrightarrow> entry_invariant (handle e c')"
    by (simp add: handle_entry)
  ultimately show ?thesis
    using typed by (intro conjI)
qed

theorem typed_input_is_decimal_numeral_witness:
  "reachable (Calculator '''') \<and>
   currentInput (Calculator '''') \<noteq> [] \<and>
   list_all digits_only [KeyDown ''1'', Action Decimal, Number D5] \<and>
   \<not> waitingForOperand (run [KeyDown ''1'', Action Decimal, Number D5] (Calculator '''')) \<and>
   \<not> justCalculated (run [KeyDown ''1'', Action Decimal, Number D5] (Calculator '''')) \<and>
   currentInput (run [KeyDown ''1'', Action Decimal, Number D5] (Calculator '''')) = ''1.5'' \<and>
   decimal_numeral
     (currentInput (run [KeyDown ''1'', Action Decimal, Number D5] (Calculator ''''))) \<and>
   entry_invariant (Calculator '''') \<and>
   digits_only (KeyDown ''7'') \<and>
   entry_invariant (handle (KeyDown ''7'') (Calculator ''''))"
proof -
  have r: "reachable (Calculator '''')"
    by (rule reachable.start)
  have d: "list_all digits_only [KeyDown ''1'', Action Decimal, Number D5]"
    "digits_only (KeyDown ''7'')"
    by (simp_all add: is_digit_def)
  have f: "\<not> waitingForOperand (run [KeyDown ''1'', Action Decimal, Number D5] (Calculator ''''))"
    "\<not> justCalculated (run [KeyDown ''1'', Action Decimal, Number D5] (Calculator ''''))"
    "currentInput (run [KeyDown ''1'', Action Decimal, Number D5] (Calculator '''')) = ''1.5''"
    by (simp_all add: Calculator_def handleKeyPress_def inputNumber_def inputDecimal_def
        is_digit_def)
  have i: "entry_invariant (Calculator '''')"
    by (simp add: entry_invariant_def Calculator_def decimal_numeral_def is_digit_def)
  from typed_input_is_decimal_numeral
    [where c = "Calculator ''''" and es = "[KeyDown ''1'', Action Decimal, Number D5]"
      and secondary = "''''" and c' = "Calculator ''''" and e = "KeyDown ''7''"]
    r d f i
  show ?thesis by blast
qed

text \<open>
  Against claim C3 as it is stated.  \<^verbatim>\<open>3 - 8 +\<close> puts the result \<^verbatim>\<open>"-5"\<close> into
  \<^verbatim>\<open>currentInput\<close> with \<^verbatim>\<open>waitingForOperand\<close> set; \<^verbatim>\<open>backspace\<close> returns early only for
  \<^verbatim>\<open>justCalculated\<close>, so it cuts the result down to \<^verbatim>\<open>"-"\<close>, which is no numeral: it does
  not start with a digit, and \<^verbatim>\<open>parseFloat\<close> makes \<open>NaN\<close> of it.
\<close>

lemma backspace_on_result_state:
  "run backspace_on_result (Calculator '''') =
     \<lparr>currentInput = ''-'', previousInput = Num (Finite True 5629499534213120 (- 50)),
      operator = Some Add, waitingForOperand = True, justCalculated = False,
      displayPrimary = ''0'', displayError = False, displaySecondary = ''-5 +'',
      pendingResets = 0\<rparr>"
  by code_simp

lemma backspace_on_result_reachable: "reachable (run backspace_on_result (Calculator ''''))"
  by (rule reachable_run_Calculator) (simp add: backspace_on_result_def)

lemma parseFloat_minus: "parseFloat_string ''-'' = NaN"
  by code_simp

theorem backspace_leaves_malformed_numeral:
  "reachable (run backspace_on_result (Calculator '''')) \<and>
   currentInput (run backspace_on_result (Calculator '''')) = ''-'' \<and>
   \<not> decimal_numeral (currentInput (run backspace_on_result (Calculator ''''))) \<and>
   parseFloat (Str (currentInput (run backspace_on_result (Calculator '''')))) = NaN"
proof -
  have "\<not> decimal_numeral ''-''"
    by (simp add: decimal_numeral_def is_digit_def)
  then show ?thesis
    using backspace_on_result_reachable
    by (simp add: backspace_on_result_state parseFloat_minus)
qed

text \<open>
  The strings that \<^verbatim>\<open>String(result)\<close> puts into \<^verbatim>\<open>currentInput\<close> are not all plain numerals:
  \<^verbatim>\<open>3 - 8\<close>, \<^verbatim>\<open>100000000000 * 100000000000\<close> and infinity times zero.
\<close>

lemma computed_result_strings:
  "ToString (js_sub (literal 3 1) (literal 8 1)) = ''-5''"
  "ToString (js_mul (literal 100000000000 1) (literal 100000000000 1)) = ''1e+22''"
  "ToString (js_mul (Infinity False) (literal 0 1)) = ''NaN''"
  by code_simp+

section \<open>Chained operators\<close>





section \<open>Rounding of results\<close>

lemma tenth_plus_two_tenths_state:
  "run tenth_plus_two_tenths (Calculator secondary) =
     \<lparr>currentInput = ''0.2'', previousInput = Num (Finite False 7205759403792794 (- 56)),
      operator = Some Add, waitingForOperand = False, justCalculated = False,
      displayPrimary = ''0.2'', displayError = False, displaySecondary = ''0.1 +'',
      pendingResets = 0\<rparr>"
  by code_simp

lemma tenth_plus_two_tenths_result:
  "performCalculation
     \<lparr>currentInput = ''0.2'', previousInput = Num (Finite False 7205759403792794 (- 56)),
      operator = Some Add, waitingForOperand = False, justCalculated = False,
      displayPrimary = ''0.2'', displayError = False, displaySecondary = ''0.1 +'',
      pendingResets = 0\<rparr> =
   (Inr (Finite False 5404319552844595 (- 54)),
     \<lparr>currentInput = ''0.2'', previousInput = Num (Finite False 7205759403792794 (- 56)),
      operator = Some Add, waitingForOperand = False, justCalculated = False,
      displayPrimary = ''0.2'', displayError = False, displaySecondary = ''0.1 +'',
      pendingResets = 0\<rparr>)"
  by code_simp

lemma tenth_plus_two_tenths_display:
  "calculate
     \<lparr>currentInput = ''0.2'', previousInput = Num (Finite False 7205759403792794 (- 56)),
      operator = Some Add, waitingForOperand = False, justCalculated = False,
      displayPrimary = ''0.2'', displayError = False, displaySecondary = ''0.1 +'',
      pendingResets = 0\<rparr> =
     \<lparr>currentInput = ''0.3'', previousInput = Str '''', operator = None,
      waitingForOperand = False, justCalculated = True,
      displayPrimary = ''0.3'', displayError = False, displaySecondary = ''0.1 + 0.2 ='',
      pendingResets = 0\<rparr>"
  by code_simp

lemma binary64_values:
  "literal 1 10 = Finite False 7205759403792794 (- 56)"
  "literal 2 10 = Finite False 7205759403792794 (- 55)"
  "literal 3 10 = Finite False 5404319552844595 (- 54)"
  "literal 1 1 = Finite False (2 ^ 52) (- 52)"
  "js_add (literal 1 1) Number_EPSILON = Finite False (2 ^ 52 + 1) (- 52)"
  "js_add (literal 1 10) (literal 2 10) = Finite False 5404319552844596 (- 54)"
  "ToString (js_add (literal 1 10) (literal 2 10)) = ''0.30000000000000004''"
  "round_result (Finite False 5404319552844596 (- 54)) = Finite False 5404319552844595 (- 54)"
  by code_simp+

lemma performCalculation_rounds:
  "fst (performCalculation c) = Inr r \<Longrightarrow>
     \<exists>op. operator c = Some op \<and>
       r = round_result (raw_result op (parseFloat (previousInput c))
             (parseFloat (Str (currentInput c))))"
  by (auto simp add: performCalculation_def Let_def split: if_splits option.splits operator.splits)

lemma tenth_plus_two_tenths_operands:
  "parseFloat (Num (Finite False 7205759403792794 (- 56))) = literal 1 10"
  "parseFloat (Str ''0.2'') = literal 2 10"
  by code_simp+

text \<open>
  Claim C6.  Every Number that \<^verbatim>\<open>performCalculation\<close> returns is the raw result \<open>x\<close> of the
  pending operator put through \<^verbatim>\<open>Math.round((x + Number.EPSILON) * 100000000) / 100000000\<close>,
  where \<^verbatim>\<open>Number.EPSILON\<close> is the offset from 1 to the next Number.  In particular
  \<^verbatim>\<open>0.1 + 0.2 =\<close> shows \<^verbatim>\<open>0.3\<close> on the primary display, although the raw sum prints as
  \<^verbatim>\<open>0.30000000000000004\<close>.
\<close>

theorem result_rounded_to_eight_places:
  "(fst (performCalculation c) = Inr r \<longrightarrow>
      (\<exists>op. operator c = Some op \<and>
         r = js_div
               (Math_round
                  (js_mul
                     (js_add
                        (raw_result op (parseFloat (previousInput c))
                           (parseFloat (Str (currentInput c))))
                        Number_EPSILON)
                     (literal 100000000 1)))
               (literal 100000000 1))) \<and>
   literal 1 1 = Finite False (2 ^ 52) (- 52) \<and>
   js_add (literal 1 1) Number_EPSILON = Finite False (2 ^ 52 + 1) (- 52) \<and>
   ToString (js_add (literal 1 10) (literal 2 10)) = ''0.30000000000000004'' \<and>
   currentInput (run (tenth_plus_two_tenths @ [Action Equals]) (Calculator secondary)) = ''0.3'' \<and>
   displayPrimary (run (tenth_plus_two_tenths @ [Action Equals]) (Calculator secondary)) = ''0.3''"
proof -
  have "\<exists>op. operator c = Some op \<and>
         r = js_div
               (Math_round
                  (js_mul
                     (js_add
                        (raw_result op (parseFloat (previousInput c))
                           (parseFloat (Str (currentInput c))))
                        Number_EPSILON)
                     (literal 100000000 1)))
               (literal 100000000 1)"
    if "fst (performCalculation c) = Inr r"
    using performCalculation_rounds [OF that] by (simp add: round_result_def)
  note formula = this
  have "run (tenth_plus_two_tenths @ [Action Equals]) (Calculator secondary) =
       \<lparr>currentInput = ''0.3'', previousInput = Str '''', operator = None,
        waitingForOperand = False, justCalculated = True,
        displayPrimary = ''0.3'', displayError = False, displaySecondary = ''0.1 + 0.2 ='',
        pendingResets = 0\<rparr>"
    by (simp only: run_append run_single handle.simps handleAction.simps
        tenth_plus_two_tenths_state tenth_plus_two_tenths_display)
  then have shown:
    "currentInput (run (tenth_plus_two_tenths @ [Action Equals]) (Calculator secondary)) = ''0.3''"
    "displayPrimary (run (tenth_plus_two_tenths @ [Action Equals]) (Calculator secondary)) = ''0.3''"
    by simp_all
  from formula shown binary64_values(4,5,7) show ?thesis
    by blast
qed

theorem result_rounded_to_eight_places_witness:
  "fst (performCalculation (run tenth_plus_two_tenths (Calculator ''''))) = Inr (literal 3 10) \<and>
   operator (run tenth_plus_two_tenths (Calculator '''')) = Some Add \<and>
   parseFloat (previousInput (run tenth_plus_two_tenths (Calculator ''''))) = literal 1 10 \<and>
   parseFloat (Str (currentInput (run tenth_plus_two_tenths (Calculator '''')))) = literal 2 10 \<and>
   literal 3 10 =
     js_div
       (Math_round
          (js_mul (js_add (js_add (literal 1 10) (literal 2 10)) Number_EPSILON)
             (literal 100000000 1)))
       (literal 100000000 1)"
proof -
  let ?c = "run tenth_plus_two_tenths (Calculator '''')"
  have a: "fst (performCalculation ?c) = Inr (literal 3 10)"
    by (simp add: tenth_plus_two_tenths_state tenth_plus_two_tenths_result binary64_values)
  have b: "operator ?c = Some Add"
    "parseFloat (previousInput ?c) = literal 1 10"
    "parseFloat (Str (currentInput ?c)) = literal 2 10"
    by (simp_all only: tenth_plus_two_tenths_state calculator.select_convs
        tenth_plus_two_tenths_operands)
  from result_rounded_to_eight_places [of ?c "literal 3 10" "''''"] a
  obtain op where "operator ?c = Some op"
    "literal 3 10 =
       js_div
         (Math_round
            (js_mul
               (js_add
                  (raw_result op (parseFloat (previousInput ?c)) (parseFloat (Str (currentInput ?c))))
                  Number_EPSILON)
               (literal 100000000 1)))
         (literal 100000000 1)"
    by blast
  with a b show ?thesis by simp
qed

section \<open>Operands that are not numbers\<close>

lemma typing_zeros:
  "\<not> waitingForOperand c \<Longrightarrow> \<not> justCalculated c \<Longrightarrow>
   currentInput c \<noteq> ''0'' \<Longrightarrow> currentInput c \<noteq> [] \<Longrightarrow>
   run (replicate (Suc n) (Number D0)) c =
     c\<lparr>currentInput := currentInput c @ replicate (Suc n) CHR ''0'',
       displayPrimary := formatNumber (Str (currentInput c @ replicate (Suc n) CHR ''0'')),
       displayError := False\<rparr>"
proof (induction n arbitrary: c)
  case 0
  then show ?case
    by (simp add: inputNumber_def updateDisplay_def)
next
  case (Suc n)
  let ?c = "inputNumber ''0'' c"
  have c': "?c = c\<lparr>currentInput := currentInput c @ ''0'',
                     displayPrimary := formatNumber (Str (currentInput c @ ''0'')),
                     displayError := False\<rparr>"
    using Suc.prems by (simp add: inputNumber_def updateDisplay_def)
  have ne: "currentInput ?c \<noteq> ''0''" "currentInput ?c \<noteq> []"
    using Suc.prems by (cases "currentInput c"; simp add: c')+
  have fl: "\<not> waitingForOperand ?c" "\<not> justCalculated ?c"
    using Suc.prems by (simp_all add: c')
  have "run (replicate (Suc (Suc n)) (Number D0)) c = run (replicate (Suc n) (Number D0)) ?c"
    by simp
  also have "\<dots> = ?c\<lparr>currentInput := currentInput ?c @ replicate (Suc n) CHR ''0'',
       displayPrimary := formatNumber (Str (currentInput ?c @ replicate (Suc n) CHR ''0'')),
       displayError := False\<rparr>"
    by (rule Suc.IH [OF fl ne])
  also have "\<dots> = c\<lparr>currentInput := currentInput c @ replicate (Suc (Suc n)) CHR ''0'',
       displayPrimary := formatNumber (Str (currentInput c @ replicate (Suc (Suc n)) CHR ''0'')),
       displayError := False\<rparr>"
    by (simp add: c' replicate_app_Cons_same)
  finally show ?case .
qed

lemma big_operand_typed:
  assumes "currentInput (handle (Number D2) c) = ''2''"
    "\<not> waitingForOperand (handle (Number D2) c)" "\<not> justCalculated (handle (Number D2) c)"
  shows "run big_operand c =
     (handle (Number D2) c)
       \<lparr>currentInput := CHR ''2'' # replicate 150 CHR ''0'',
        displayPrimary := formatNumber (Str (CHR ''2'' # replicate 150 CHR ''0'')),
        displayError := False\<rparr>"
proof -
  have "run big_operand c = run (replicate (Suc 149) (Number D0)) (handle (Number D2) c)"
    by (simp add: big_operand_def)
  also have "\<dots> = (handle (Number D2) c)
       \<lparr>currentInput := currentInput (handle (Number D2) c) @ replicate (Suc 149) CHR ''0'',
        displayPrimary := formatNumber (Str (currentInput (handle (Number D2) c) @ replicate (Suc 149) CHR ''0'')),
        displayError := False\<rparr>"
    using assms by (intro typing_zeros) simp_all
  finally show ?thesis using assms by simp
qed

lemma big_operand_display:
  "formatNumber (Str (CHR ''2'' # replicate 150 CHR ''0'')) = ''2.000000e+150''"
  by code_simp

lemma first_operand_state:
  "run big_operand (Calculator '''') =
     \<lparr>currentInput = CHR ''2'' # replicate 150 CHR ''0'', previousInput = Str '''',
      operator = None, waitingForOperand = False, justCalculated = False,
      displayPrimary = ''2.000000e+150'', displayError = False, displaySecondary = '''',
      pendingResets = 0\<rparr>"
  by (subst big_operand_typed)
    (simp_all add: Calculator_def inputNumber_def updateDisplay_def big_operand_display)

lemma first_operator_state:
  "handle (Action (Operator Multiply))
     \<lparr>currentInput = CHR ''2'' # replicate 150 CHR ''0'', previousInput = Str '''',
      operator = None, waitingForOperand = False, justCalculated = False,
      displayPrimary = ''2.000000e+150'', displayError = False, displaySecondary = '''',
      pendingResets = 0\<rparr> =
     \<lparr>currentInput = CHR ''2'' # replicate 150 CHR ''0'',
      previousInput = Num (Finite False 5503284107318959 447),
      operator = Some Multiply, waitingForOperand = True, justCalculated = False,
      displayPrimary = ''2.000000e+150'', displayError = False,
      displaySecondary = ''2.000000e+150 '' @ [CHR 0xC3, CHR 0x97], pendingResets = 0\<rparr>"
  by code_simp

lemma second_operand_state:
  "run big_operand
     \<lparr>currentInput = CHR ''2'' # replicate 150 CHR ''0'',
      previousInput = Num (Finite False 5503284107318959 447),
      operator = Some Multiply, waitingForOperand = True, justCalculated = False,
      displayPrimary = ''2.000000e+150'', displayError = False,
      displaySecondary = ''2.000000e+150 '' @ [CHR 0xC3, CHR 0x97], pendingResets = 0\<rparr> =
     \<lparr>currentInput = CHR ''2'' # replicate 150 CHR ''0'',
      previousInput = Num (Finite False 5503284107318959 447),
      operator = Some Multiply, waitingForOperand = False, justCalculated = False,
      displayPrimary = ''2.000000e+150'', displayError = False,
      displaySecondary = ''2.000000e+150 '' @ [CHR 0xC3, CHR 0x97], pendingResets = 0\<rparr>"
  by (subst big_operand_typed)
    (simp_all add: inputNumber_def updateDisplay_def big_operand_display)

lemma overflow_and_nan_state:
  "run [Action (Operator Multiply), Number D0, Action Equals, Action (Operator Add), Number D1]
     \<lparr>currentInput = CHR ''2'' # replicate 150 CHR ''0'',
      previousInput = Num (Finite False 5503284107318959 447),
      operator = Some Multiply, waitingForOperand = False, justCalculated = False,
      displayPrimary = ''2.000000e+150'', displayError = False,
      displaySecondary = ''2.000000e+150 '' @ [CHR 0xC3, CHR 0x97], pendingResets = 0\<rparr> =
     \<lparr>currentInput = ''1'', previousInput = Num NaN, operator = Some Add,
      waitingForOperand = False, justCalculated = False,
      displayPrimary = ''1'', displayError = False, displaySecondary = ''0 +'',
      pendingResets = 0\<rparr>"
  by code_simp

lemma nan_operand_state:
  "run nan_operand (Calculator '''') =
     \<lparr>currentInput = ''1'', previousInput = Num NaN, operator = Some Add,
      waitingForOperand = False, justCalculated = False,
      displayPrimary = ''1'', displayError = False, displaySecondary = ''0 +'',
      pendingResets = 0\<rparr>"
  by (simp only: nan_operand_def run_append run_single first_operand_state
      first_operator_state second_operand_state overflow_and_nan_state)

lemma not_a_number_returns:
  assumes "fst (performCalculation c) = Inl NotANumber"
    and "previousInput c \<noteq> Str ''''" "operator c \<noteq> None" "\<not> waitingForOperand c"
  shows "calculate c = c \<and> handleOperator op c = c"
  using assms performCalculation_cases [of c]
  by (auto simp add: calculate_def handleOperator_def)

lemma nan_operand_reachable: "reachable (run nan_operand (Calculator ''''))"
  by (rule reachable_run_Calculator) (simp add: nan_operand_def big_operand_def list_all_iff)

lemma nan_operand_fails:
  "fst (performCalculation (run nan_operand (Calculator ''''))) = Inl NotANumber"
  by (subst nan_operand_state) code_simp

text \<open>
  Claim C2.  The claim asks for the error display when an operand is not a number.  The
  code does not give it: the first \<^verbatim>\<open>return null\<close> of \<^verbatim>\<open>performCalculation\<close> comes without
  \<^verbatim>\<open>showError\<close>, which only the division by zero calls.  After \<^verbatim>\<open>20...0 * 20...0 * 0 = + 1\<close>
  (150 zeros after each 2) \<^verbatim>\<open>previousInput\<close> is \<open>NaN\<close>; equals, or another operator, then
  returns with the state and both displays as they were: the primary display goes on
  showing \<^verbatim>\<open>1\<close>, not \<^verbatim>\<open>Error\<close>.
\<close>

theorem not_a_number_shows_no_error:
  "reachable (run nan_operand (Calculator '''')) \<and>
   fst (performCalculation (run nan_operand (Calculator ''''))) = Inl NotANumber \<and>
   calculate (run nan_operand (Calculator '''')) = run nan_operand (Calculator '''') \<and>
   handleOperator Subtract (run nan_operand (Calculator '''')) =
     run nan_operand (Calculator '''') \<and>
   displayPrimary (calculate (run nan_operand (Calculator ''''))) = ''1'' \<and>
   displaySecondary (calculate (run nan_operand (Calculator ''''))) = ''0 +'' \<and>
   displayError (calculate (run nan_operand (Calculator ''''))) = False"
proof -
  have "previousInput (run nan_operand (Calculator '''')) \<noteq> Str ''''"
    "operator (run nan_operand (Calculator '''')) \<noteq> None"
    "\<not> waitingForOperand (run nan_operand (Calculator ''''))"
    by (simp_all add: nan_operand_state)
  from not_a_number_returns [OF nan_operand_fails this, of Subtract]
  show ?thesis
    using nan_operand_reachable nan_operand_fails
    by (simp add: nan_operand_state)
qed

end
